theory Spec2Isabelle
  imports Complex_Main "HOL-Library.AList"
begin

section \<open>Python values\<close>

text \<open>
  The checkpoint files hold JSON, and \<^verbatim>\<open>to_dict\<close> / \<^verbatim>\<open>from_dict\<close> work on the
  dictionaries \<^verbatim>\<open>json.load\<close> returns. A dictionary is an association list in insertion
  order (its keys pairwise distinct in every value the code builds). Floating point
  numbers do not occur in the files the code writes and are left out.
\<close>

datatype json =
    JNull
  | JBool bool
  | JInt int
  | JStr string
  | JList "json list"
  | JObj "(string \<times> json) list"

text \<open>
  The exceptions of the source. \<open>NoProxy\<close> is the \<^verbatim>\<open>Exception\<close> raised by
  \<^verbatim>\<open>with_proxy\<close> when the pool yields nothing. \<open>IllTyped\<close> is not a Python exception: it
  marks a stored value outside the type its dataclass field is annotated with, which
  \<^verbatim>\<open>ParsingProgress.from_dict\<close> would copy into the object unchecked.
\<close>

datatype exn =
    KeyError | TypeError | ValueError | AttributeError | OSError | ZeroDivisionError
  | UnboundLocalError | NoProxy | IllTyped

text \<open>A naive \<^verbatim>\<open>datetime\<close>, as a count of microseconds.\<close>

type_synonym datetime = int

text \<open>
  Library functions the repository calls and does not define. \<open>isoformat\<close> and
  \<open>fromisoformat\<close> are those of \<^verbatim>\<open>datetime\<close> (\<open>None\<close>: \<^verbatim>\<open>ValueError\<close>); \<open>str_of\<close> is
  \<^verbatim>\<open>str\<close> on a value that is not a string; \<open>int_of_str\<close> is \<^verbatim>\<open>int\<close> on a string
  (\<open>None\<close>: \<^verbatim>\<open>ValueError\<close>).
\<close>

record pylib =
  isoformat :: "datetime \<Rightarrow> string"
  fromisoformat :: "string \<Rightarrow> datetime option"
  str_of :: "json \<Rightarrow> string"
  int_of_str :: "string \<Rightarrow> int option"

definition and_then :: "exn + 'a \<Rightarrow> ('a \<Rightarrow> exn + 'b) \<Rightarrow> exn + 'b" where
  "and_then m f = (case m of Inl e \<Rightarrow> Inl e | Inr x \<Rightarrow> f x)"

text \<open>\<^verbatim>\<open>try: ... except Exception: return None\<close>\<close>

definition caught :: "exn + 'a \<Rightarrow> 'a option" where
  "caught m = (case m of Inl e \<Rightarrow> None | Inr x \<Rightarrow> Some x)"

fun map_exn :: "('a \<Rightarrow> exn + 'b) \<Rightarrow> 'a list \<Rightarrow> exn + 'b list" where
  "map_exn f [] = Inr []"
| "map_exn f (x # xs) =
     (case f x of
        Inl e \<Rightarrow> Inl e
      | Inr y \<Rightarrow> (case map_exn f xs of Inl e \<Rightarrow> Inl e | Inr ys \<Rightarrow> Inr (y # ys)))"

text \<open>\<^verbatim>\<open>bool(x)\<close>, and the truth value of \<^verbatim>\<open>x\<close> in a condition.\<close>

fun truthy :: "json \<Rightarrow> bool" where
  "truthy JNull = False"
| "truthy (JBool b) = b"
| "truthy (JInt n) = (n \<noteq> 0)"
| "truthy (JStr s) = (s \<noteq> [])"
| "truthy (JList xs) = (xs \<noteq> [])"
| "truthy (JObj kvs) = (kvs \<noteq> [])"

text \<open>The truth value of a list in a condition.\<close>

definition nonempty :: "'a list \<Rightarrow> bool" where
  "nonempty xs = (xs \<noteq> [])"

text \<open>\<^verbatim>\<open>x.get(k)\<close>: only a dictionary has the method.\<close>

fun dict_get :: "json \<Rightarrow> string \<Rightarrow> exn + json option" where
  "dict_get (JObj kvs) k = Inr (map_of kvs k)"
| "dict_get _ k = Inl AttributeError"

text \<open>\<^verbatim>\<open>x.get(k, d)\<close>\<close>

definition dict_get_default :: "json \<Rightarrow> string \<Rightarrow> json \<Rightarrow> exn + json" where
  "dict_get_default x k d =
     (case dict_get x k of Inl e \<Rightarrow> Inl e | Inr None \<Rightarrow> Inr d | Inr (Some v) \<Rightarrow> Inr v)"

text \<open>\<^verbatim>\<open>x[k]\<close> with a string key.\<close>

fun dict_item :: "json \<Rightarrow> string \<Rightarrow> exn + json" where
  "dict_item (JObj kvs) k = (case map_of kvs k of None \<Rightarrow> Inl KeyError | Some v \<Rightarrow> Inr v)"
| "dict_item _ k = Inl TypeError"

text \<open>
  Iteration, as a \<^verbatim>\<open>for\<close> loop or a comprehension does it: a list gives its items, a
  dictionary its keys, a string its characters; nothing else is iterable.
\<close>

fun py_iter :: "json \<Rightarrow> exn + json list" where
  "py_iter (JList xs) = Inr xs"
| "py_iter (JObj kvs) = Inr (map (\<lambda>kv. JStr (fst kv)) kvs)"
| "py_iter (JStr s) = Inr (map (\<lambda>c. JStr [c]) s)"
| "py_iter _ = Inl TypeError"

text \<open>\<^verbatim>\<open>str(x)\<close>\<close>

fun py_str :: "pylib \<Rightarrow> json \<Rightarrow> string" where
  "py_str lib (JStr s) = s"
| "py_str lib x = str_of lib x"

text \<open>\<^verbatim>\<open>int(x)\<close>\<close>

fun py_int :: "pylib \<Rightarrow> json \<Rightarrow> exn + int" where
  "py_int lib (JInt n) = Inr n"
| "py_int lib (JBool b) = Inr (if b then 1 else 0)"
| "py_int lib (JStr s) = (case int_of_str lib s of None \<Rightarrow> Inl ValueError | Some n \<Rightarrow> Inr n)"
| "py_int lib _ = Inl TypeError"

text \<open>\<^verbatim>\<open>datetime.fromisoformat(x)\<close>\<close>

fun py_fromisoformat :: "pylib \<Rightarrow> json \<Rightarrow> exn + datetime" where
  "py_fromisoformat lib (JStr s) =
     (case fromisoformat lib s of None \<Rightarrow> Inl ValueError | Some d \<Rightarrow> Inr d)"
| "py_fromisoformat lib _ = Inl TypeError"

section \<open>db\_manager.py: the records and their dictionary forms\<close>

datatype ParsingStatus = NOT_STARTED | IN_PROGRESS | COMPLETED | FAILED

text \<open>\<^verbatim>\<open>status.value\<close>\<close>

fun status_value :: "ParsingStatus \<Rightarrow> string" where
  "status_value NOT_STARTED = ''not_started''"
| "status_value IN_PROGRESS = ''in_progress''"
| "status_value COMPLETED = ''completed''"
| "status_value FAILED = ''failed''"

text \<open>\<^verbatim>\<open>ParsingStatus(x)\<close>: the member with that value, or \<^verbatim>\<open>ValueError\<close>.\<close>

definition ParsingStatus_of :: "json \<Rightarrow> exn + ParsingStatus" where
  "ParsingStatus_of x =
     (if x = JStr ''not_started'' then Inr NOT_STARTED
      else if x = JStr ''in_progress'' then Inr IN_PROGRESS
      else if x = JStr ''completed'' then Inr COMPLETED
      else if x = JStr ''failed'' then Inr FAILED
      else Inl ValueError)"

record ParsingProgress =
  contract_address :: string
  current_page :: int
  total_pages :: "int option"
  last_processed_at :: datetime
  status :: ParsingStatus
  error_message :: "string option"

record TokenHolder =
  address :: string
  balance :: string
  processed :: bool
  processed_at :: "datetime option"

record ProcessedContract =
  c_address :: string
  c_chain :: string
  c_processed_at :: datetime
  holders_count :: int
  holders :: "TokenHolder list"
  c_status :: ParsingStatus

definition opt_int :: "int option \<Rightarrow> json" where
  "opt_int x = (case x of None \<Rightarrow> JNull | Some n \<Rightarrow> JInt n)"

definition opt_str :: "string option \<Rightarrow> json" where
  "opt_str x = (case x of None \<Rightarrow> JNull | Some s \<Rightarrow> JStr s)"

text \<open>The layout both \<^verbatim>\<open>ParsingProgress.to_dict\<close> methods (db\_manager.py, models.py) build.\<close>

definition progress_dict ::
  "pylib \<Rightarrow> string \<Rightarrow> int \<Rightarrow> int option \<Rightarrow> datetime \<Rightarrow> string \<Rightarrow> string option \<Rightarrow> json" where
  "progress_dict lib addr page tot stamp st msg =
     JObj [(''contract_address'', JStr addr),
           (''current_page'', JInt page),
           (''total_pages'', opt_int tot),
           (''last_processed_at'', JStr (isoformat lib stamp)),
           (''status'', JStr st),
           (''error_message'', opt_str msg)]"

definition ParsingProgress_to_dict :: "pylib \<Rightarrow> ParsingProgress \<Rightarrow> json" where
  "ParsingProgress_to_dict lib p =
     progress_dict lib (contract_address p) (current_page p) (total_pages p)
       (last_processed_at p) (status_value (status p)) (error_message p)"

text \<open>
  The fields \<^verbatim>\<open>from_dict\<close> copies without conversion are read at their annotated type.
\<close>

fun as_str :: "json \<Rightarrow> exn + string" where
  "as_str (JStr s) = Inr s"
| "as_str _ = Inl IllTyped"

fun as_int :: "json \<Rightarrow> exn + int" where
  "as_int (JInt n) = Inr n"
| "as_int _ = Inl IllTyped"

fun as_opt_int :: "json option \<Rightarrow> exn + int option" where
  "as_opt_int None = Inr None"
| "as_opt_int (Some JNull) = Inr None"
| "as_opt_int (Some (JInt n)) = Inr (Some n)"
| "as_opt_int (Some _) = Inl IllTyped"

fun as_opt_str :: "json option \<Rightarrow> exn + string option" where
  "as_opt_str None = Inr None"
| "as_opt_str (Some JNull) = Inr None"
| "as_opt_str (Some (JStr s)) = Inr (Some s)"
| "as_opt_str (Some _) = Inl IllTyped"

definition ParsingProgress_from_dict :: "pylib \<Rightarrow> json \<Rightarrow> exn + ParsingProgress" where
  "ParsingProgress_from_dict lib d =
     and_then (and_then (dict_item d ''contract_address'') as_str) (\<lambda>addr.
     and_then (and_then (dict_item d ''current_page'') as_int) (\<lambda>page.
     and_then (and_then (dict_get d ''total_pages'') as_opt_int) (\<lambda>tot.
     and_then (and_then (dict_item d ''last_processed_at'') (py_fromisoformat lib)) (\<lambda>stamp.
     and_then (and_then (dict_item d ''status'') ParsingStatus_of) (\<lambda>st.
     and_then (and_then (dict_get d ''error_message'') as_opt_str) (\<lambda>msg.
       Inr \<lparr>contract_address = addr, current_page = page, total_pages = tot,
            last_processed_at = stamp, status = st, error_message = msg\<rparr>))))))"

definition TokenHolder_to_dict :: "pylib \<Rightarrow> TokenHolder \<Rightarrow> json" where
  "TokenHolder_to_dict lib h =
     JObj [(''address'', JStr (address h)),
           (''balance'', JStr (balance h)),
           (''processed'', JBool (processed h)),
           (''processed_at'',
              (case processed_at h of None \<Rightarrow> JNull | Some d \<Rightarrow> JStr (isoformat lib d)))]"

definition TokenHolder_from_dict :: "pylib \<Rightarrow> json \<Rightarrow> exn + TokenHolder" where
  "TokenHolder_from_dict lib d =
     (case d of
        JStr s \<Rightarrow> Inr \<lparr>address = s, balance = ''0'', processed = False, processed_at = None\<rparr>
      | _ \<Rightarrow>
        and_then (dict_get_default d ''address'' (JStr '''')) (\<lambda>a.
        and_then (dict_get_default d ''balance'' (JStr ''0'')) (\<lambda>b.
        and_then (dict_get_default d ''processed'' (JBool False)) (\<lambda>p.
        and_then (dict_get d ''processed_at'') (\<lambda>t.
        and_then (case t of
                    None \<Rightarrow> Inr None
                  | Some v \<Rightarrow>
                      if truthy v
                      then and_then (and_then (dict_item d ''processed_at'') (py_fromisoformat lib))
                             (\<lambda>stamp. Inr (Some stamp))
                      else Inr None) (\<lambda>stamp.
          Inr \<lparr>address = py_str lib a, balance = py_str lib b, processed = truthy p,
               processed_at = stamp\<rparr>))))))"

text \<open>
  The layout both \<^verbatim>\<open>ProcessedContract.to_dict\<close> methods build, over the dictionaries of
  the holders and the status value.
\<close>

definition contract_dict ::
  "pylib \<Rightarrow> string \<Rightarrow> string \<Rightarrow> datetime \<Rightarrow> int \<Rightarrow> json list \<Rightarrow> string \<Rightarrow> json" where
  "contract_dict lib addr chain stamp n hs st =
     JObj [(''address'', JStr addr),
           (''chain'', JStr chain),
           (''processed_at'', JStr (isoformat lib stamp)),
           (''holders_count'', JInt n),
           (''holders'', JList hs),
           (''status'', JStr st)]"

definition ProcessedContract_to_dict :: "pylib \<Rightarrow> ProcessedContract \<Rightarrow> json" where
  "ProcessedContract_to_dict lib c =
     contract_dict lib (c_address c) (c_chain c) (c_processed_at c) (holders_count c)
       (map (TokenHolder_to_dict lib) (holders c)) (status_value (c_status c))"

text \<open>
  \<^verbatim>\<open>ProcessedContract.from_dict\<close>: any exception gives \<^verbatim>\<open>None\<close>. \<open>now\<close> is what
  \<^verbatim>\<open>datetime.now()\<close> returns.
\<close>

definition ProcessedContract_from_dict :: "pylib \<Rightarrow> datetime \<Rightarrow> json \<Rightarrow> ProcessedContract option" where
  "ProcessedContract_from_dict lib now d = caught (
     and_then (dict_get_default d ''holders'' (JList [])) (\<lambda>holders_data.
     and_then (py_iter holders_data) (\<lambda>items.
     and_then (map_exn (TokenHolder_from_dict lib) items) (\<lambda>hs.
     and_then (dict_get_default d ''address'' (JStr '''')) (\<lambda>a.
     and_then (dict_get_default d ''chain'' (JStr '''')) (\<lambda>ch.
     and_then (dict_get d ''processed_at'') (\<lambda>t.
     and_then (case t of
                 Some (JStr s) \<Rightarrow> and_then (dict_item d ''processed_at'') (py_fromisoformat lib)
               | _ \<Rightarrow> Inr now) (\<lambda>stamp.
     and_then (and_then (dict_get_default d ''holders_count'' (JInt 0)) (py_int lib)) (\<lambda>n.
     and_then (and_then (dict_get_default d ''status'' (JStr (status_value COMPLETED)))
                 ParsingStatus_of) (\<lambda>st.
       Inr \<lparr>c_address = py_str lib a, c_chain = py_str lib ch, c_processed_at = stamp,
            holders_count = n, holders = hs, c_status = st\<rparr>))))))))))"

section \<open>models.py: the records of the service\<close>

text \<open>
  token\_holders\_service.py takes \<^verbatim>\<open>TokenHolder\<close>, \<^verbatim>\<open>ProcessedContract\<close>,
  \<^verbatim>\<open>ParsingStatus\<close> and \<^verbatim>\<open>ParsingProgress\<close> from models.py; get\_holders.py and
  db\_manager.py use the classes of db\_manager.py. The two modules define classes of
  the same names, and they are different classes.
\<close>

datatype m_ParsingStatus = M_PENDING | M_IN_PROGRESS | M_COMPLETED | M_FAILED | M_RATE_LIMITED

fun m_status_value :: "m_ParsingStatus \<Rightarrow> string" where
  "m_status_value M_PENDING = ''pending''"
| "m_status_value M_IN_PROGRESS = ''in_progress''"
| "m_status_value M_COMPLETED = ''completed''"
| "m_status_value M_FAILED = ''failed''"
| "m_status_value M_RATE_LIMITED = ''rate_limited''"

record m_TokenHolder =
  m_address :: string
  m_balance :: string

text \<open>
  What a variable holds at run time: an instance of the class of either module. A
  member of \<^verbatim>\<open>models.ParsingStatus\<close> and a member of \<^verbatim>\<open>db_manager.ParsingStatus\<close> are
  members of different \<^verbatim>\<open>Enum\<close> classes, and \<^verbatim>\<open>==\<close> on them is false whatever their
  values: equality of \<open>status_obj\<close> is that comparison.
\<close>

datatype status_obj = DbStatus ParsingStatus | ModelsStatus m_ParsingStatus

datatype holder_obj = DbHolder TokenHolder | ModelsHolder m_TokenHolder

fun status_obj_value :: "status_obj \<Rightarrow> string" where
  "status_obj_value (DbStatus s) = status_value s"
| "status_obj_value (ModelsStatus s) = m_status_value s"

text \<open>\<^verbatim>\<open>h.address\<close> and \<^verbatim>\<open>h.to_dict()\<close>\<close>

fun holder_address :: "holder_obj \<Rightarrow> string" where
  "holder_address (DbHolder h) = address h"
| "holder_address (ModelsHolder h) = m_address h"

fun holder_to_dict :: "pylib \<Rightarrow> holder_obj \<Rightarrow> json" where
  "holder_to_dict lib (DbHolder h) = TokenHolder_to_dict lib h"
| "holder_to_dict lib (ModelsHolder h) =
     JObj [(''address'', JStr (m_address h)), (''balance'', JStr (m_balance h))]"

record m_ProcessedContract =
  mc_address :: string
  mc_chain :: string
  mc_processed_at :: datetime
  mc_holders_count :: int
  mc_holders :: "holder_obj list"
  mc_status :: m_ParsingStatus

record m_ParsingProgress =
  mp_contract_address :: string
  mp_current_page :: int
  mp_total_pages :: "int option"
  mp_last_processed_at :: datetime
  mp_status :: m_ParsingStatus
  mp_error_message :: "string option"

text \<open>The argument of \<^verbatim>\<open>save_processed_contract\<close> and of \<^verbatim>\<open>save_parsing_progress\<close>.\<close>

datatype contract_arg = DbContract ProcessedContract | ModelsContract m_ProcessedContract

datatype progress_arg = DbProgress ParsingProgress | ModelsProgress m_ParsingProgress

fun arg_address :: "contract_arg \<Rightarrow> string" where
  "arg_address (DbContract c) = c_address c"
| "arg_address (ModelsContract c) = mc_address c"

fun arg_chain :: "contract_arg \<Rightarrow> string" where
  "arg_chain (DbContract c) = c_chain c"
| "arg_chain (ModelsContract c) = mc_chain c"

fun arg_holders :: "contract_arg \<Rightarrow> holder_obj list" where
  "arg_holders (DbContract c) = map DbHolder (holders c)"
| "arg_holders (ModelsContract c) = mc_holders c"

fun arg_holders_count :: "contract_arg \<Rightarrow> int" where
  "arg_holders_count (DbContract c) = holders_count c"
| "arg_holders_count (ModelsContract c) = mc_holders_count c"

fun arg_status :: "contract_arg \<Rightarrow> status_obj" where
  "arg_status (DbContract c) = DbStatus (c_status c)"
| "arg_status (ModelsContract c) = ModelsStatus (mc_status c)"

fun arg_to_dict :: "pylib \<Rightarrow> contract_arg \<Rightarrow> json" where
  "arg_to_dict lib (DbContract c) = ProcessedContract_to_dict lib c"
| "arg_to_dict lib (ModelsContract c) =
     contract_dict lib (mc_address c) (mc_chain c) (mc_processed_at c) (mc_holders_count c)
       (map (holder_to_dict lib) (mc_holders c)) (m_status_value (mc_status c))"

fun progress_address :: "progress_arg \<Rightarrow> string" where
  "progress_address (DbProgress p) = contract_address p"
| "progress_address (ModelsProgress p) = mp_contract_address p"

fun progress_to_dict :: "pylib \<Rightarrow> progress_arg \<Rightarrow> json" where
  "progress_to_dict lib (DbProgress p) = ParsingProgress_to_dict lib p"
| "progress_to_dict lib (ModelsProgress p) =
     progress_dict lib (mp_contract_address p) (mp_current_page p) (mp_total_pages p)
       (mp_last_processed_at p) (m_status_value (mp_status p)) (mp_error_message p)"

section \<open>db\_manager.py: DBManager\<close>

text \<open>
  The three checkpoint files, each with its parsed content; \<open>None\<close> is a file that is
  missing or does not hold JSON. Logging is not part of the state.
\<close>

record DBManager =
  processed_contracts :: "json option"
  pending_holders :: "json option"
  parsing_progress :: "json option"

datatype db_path = processed_contracts_file | pending_holders_file | parsing_progress_file

text \<open>
  What the disk does with a write: \<^verbatim>\<open>open(path, 'w')\<close> raises and the file stays as it
  was, or \<^verbatim>\<open>json.dump\<close> raises after the file was truncated, or the write succeeds.
\<close>

datatype disk = Works | OpenFails | DumpFails

fun read_file :: "DBManager \<Rightarrow> db_path \<Rightarrow> json option" where
  "read_file db processed_contracts_file = processed_contracts db"
| "read_file db pending_holders_file = pending_holders db"
| "read_file db parsing_progress_file = parsing_progress db"

fun write_file :: "db_path \<Rightarrow> json option \<Rightarrow> DBManager \<Rightarrow> DBManager" where
  "write_file processed_contracts_file x db = db\<lparr>processed_contracts := x\<rparr>"
| "write_file pending_holders_file x db = db\<lparr>pending_holders := x\<rparr>"
| "write_file parsing_progress_file x db = db\<lparr>parsing_progress := x\<rparr>"

fun get_default_data :: "db_path \<Rightarrow> json" where
  "get_default_data processed_contracts_file = JObj [(''contracts'', JList [])]"
| "get_default_data pending_holders_file = JObj [(''pending'', JObj [])]"
| "get_default_data parsing_progress_file = JObj [(''progress'', JObj [])]"

definition load_json :: "DBManager \<Rightarrow> db_path \<Rightarrow> (string \<times> json) list" where
  "load_json db path =
     (case read_file db path of
        Some (JObj kvs) \<Rightarrow> kvs
      | _ \<Rightarrow> (case get_default_data path of JObj kvs \<Rightarrow> kvs | _ \<Rightarrow> []))"

text \<open>
  A method of \<open>DBManager\<close> ends with the exception it raised, if any, and the files as
  it left them.
\<close>

type_synonym db_result = "exn option \<times> DBManager"

text \<open>\<^verbatim>\<open>try: ... except Exception as e: logger.error(...)\<close>: the exception is dropped.\<close>

definition swallow :: "exn option \<times> 's \<Rightarrow> exn option \<times> 's" where
  "swallow r = (None, snd r)"

text \<open>One statement after another: an exception of the first skips the second.\<close>

definition then_do :: "exn option \<times> 's \<Rightarrow> ('s \<Rightarrow> exn option \<times> 's) \<Rightarrow> exn option \<times> 's" where
  "then_do r f = (case fst r of Some e \<Rightarrow> r | None \<Rightarrow> f (snd r))"

text \<open>\<^verbatim>\<open>with open(file_path, 'w') as f: json.dump(data, f, ...)\<close>\<close>

fun write_json :: "disk \<Rightarrow> db_path \<Rightarrow> json \<Rightarrow> DBManager \<Rightarrow> db_result" where
  "write_json Works path x db = (None, write_file path (Some x) db)"
| "write_json OpenFails path x db = (Some OSError, db)"
| "write_json DumpFails path x db = (Some OSError, write_file path None db)"

text \<open>\<^verbatim>\<open>_save_json\<close> catches every exception of the write and returns.\<close>

definition save_json :: "disk \<Rightarrow> db_path \<Rightarrow> json \<Rightarrow> DBManager \<Rightarrow> db_result" where
  "save_json dsk path x db = swallow (write_json dsk path x db)"

text \<open>
  \<^verbatim>\<open>data["progress"][progress.contract_address] = progress.to_dict()\<close> raises
  \<^verbatim>\<open>KeyError\<close> without the key and \<^verbatim>\<open>TypeError\<close> on a value that is not a dictionary;
  the method catches both.
\<close>

definition save_parsing_progress :: "disk \<Rightarrow> pylib \<Rightarrow> DBManager \<Rightarrow> progress_arg \<Rightarrow> db_result" where
  "save_parsing_progress dsk lib db p = swallow
     (let data = load_json db parsing_progress_file in
      case map_of data ''progress'' of
        None \<Rightarrow> (Some KeyError, db)
      | Some (JObj pr) \<Rightarrow>
          save_json dsk parsing_progress_file
            (JObj (AList.update ''progress''
                     (JObj (AList.update (progress_address p) (progress_to_dict lib p) pr)) data)) db
      | Some _ \<Rightarrow> (Some TypeError, db))"

definition get_parsing_progress :: "pylib \<Rightarrow> DBManager \<Rightarrow> string \<Rightarrow> ParsingProgress option" where
  "get_parsing_progress lib db addr =
     (let data = load_json db parsing_progress_file in
      case map_of data ''progress'' of
        Some (JObj pr) \<Rightarrow>
          (case map_of pr addr of
             Some pd \<Rightarrow> if truthy pd then caught (ParsingProgress_from_dict lib pd) else None
           | None \<Rightarrow> None)
      | _ \<Rightarrow> None)"

text \<open>
  On a \<^verbatim>\<open>"progress"\<close> value that is not a dictionary the membership test is false or
  raises, or the \<^verbatim>\<open>del\<close> raises: nothing is written either way, and the method catches
  the exception.
\<close>

definition remove_parsing_progress :: "disk \<Rightarrow> DBManager \<Rightarrow> string \<Rightarrow> db_result" where
  "remove_parsing_progress dsk db addr = swallow
     (let data = load_json db parsing_progress_file in
      case map_of data ''progress'' of
        None \<Rightarrow> (Some KeyError, db)
      | Some (JObj pr) \<Rightarrow>
          if addr \<in> fst ` set pr
          then save_json dsk parsing_progress_file
                 (JObj (AList.update ''progress'' (JObj (AList.delete addr pr)) data)) db
          else (None, db)
      | Some _ \<Rightarrow> (Some TypeError, db))"

text \<open>\<^verbatim>\<open>contracts = data.get("contracts", [])\<close> on the loaded file.\<close>

definition stored_contracts :: "DBManager \<Rightarrow> json" where
  "stored_contracts db =
     (case map_of (load_json db processed_contracts_file) ''contracts'' of
        None \<Rightarrow> JList []
      | Some v \<Rightarrow> v)"

text \<open>
  The loop of \<^verbatim>\<open>save_processed_contract\<close> over the stored records: the first record
  whose \<^verbatim>\<open>"address"\<close> is the contract's is merged with it (or replaced by it when
  \<^verbatim>\<open>from_dict\<close> returns \<^verbatim>\<open>None\<close>) and the loop stops. \<open>None\<close>: no record matched.
\<close>

definition merged_entry :: "pylib \<Rightarrow> datetime \<Rightarrow> contract_arg \<Rightarrow> json \<Rightarrow> json" where
  "merged_entry lib now c e =
     (case ProcessedContract_from_dict lib now e of
        Some existing \<Rightarrow>
          (let existing_addresses = set (map address (holders existing));
               new_holders = filter (\<lambda>h. holder_address h \<notin> existing_addresses) (arg_holders c);
               all_holders = map DbHolder (holders existing) @ new_holders
           in contract_dict lib (arg_address c) (arg_chain c) now (int (length all_holders))
                (map (holder_to_dict lib) all_holders) (status_obj_value (arg_status c)))
      | None \<Rightarrow> arg_to_dict lib c)"

fun update_contracts ::
  "pylib \<Rightarrow> datetime \<Rightarrow> contract_arg \<Rightarrow> json list \<Rightarrow> exn + json list option" where
  "update_contracts lib now c [] = Inr None"
| "update_contracts lib now c (e # es) =
     (case dict_get e ''address'' of
        Inl x \<Rightarrow> Inl x
      | Inr a \<Rightarrow>
          if a = Some (JStr (arg_address c)) then Inr (Some (merged_entry lib now c e # es))
          else (case update_contracts lib now c es of
                  Inl x \<Rightarrow> Inl x
                | Inr None \<Rightarrow> Inr None
                | Inr (Some es') \<Rightarrow> Inr (Some (e # es'))))"

text \<open>
  \<^verbatim>\<open>save_processed_contract\<close> logs and re-raises (\<^verbatim>\<open>except Exception as e: ...; raise\<close>)
  what its body raises. A \<^verbatim>\<open>"contracts"\<close> value that is not a list always ends in an
  exception: of the loop, or of \<^verbatim>\<open>contracts.append\<close>.
\<close>

definition save_processed_contract ::
  "disk \<Rightarrow> pylib \<Rightarrow> datetime \<Rightarrow> DBManager \<Rightarrow> contract_arg \<Rightarrow> db_result" where
  "save_processed_contract dsk lib now db c =
     (case stored_contracts db of
        JList cs \<Rightarrow>
          (case update_contracts lib now c cs of
             Inl x \<Rightarrow> (Some x, db)
           | Inr r \<Rightarrow>
               (let cs' = (case r of Some ds \<Rightarrow> ds | None \<Rightarrow> cs @ [arg_to_dict lib c])
                in then_do
                     (save_json dsk processed_contracts_file (JObj [(''contracts'', JList cs')]) db)
                     (\<lambda>db'. if arg_status c = DbStatus COMPLETED
                            then remove_parsing_progress dsk db' (arg_address c)
                            else (None, db'))))
      | JObj kvs \<Rightarrow> (Some AttributeError, db)
      | JStr s \<Rightarrow> (Some AttributeError, db)
      | _ \<Rightarrow> (Some TypeError, db))"

fun find_contract :: "pylib \<Rightarrow> datetime \<Rightarrow> string \<Rightarrow> json list \<Rightarrow> ProcessedContract option" where
  "find_contract lib now addr [] = None"
| "find_contract lib now addr (e # es) =
     (case dict_get e ''address'' of
        Inl x \<Rightarrow> None
      | Inr a \<Rightarrow>
          if a = Some (JStr addr) then ProcessedContract_from_dict lib now e
          else find_contract lib now addr es)"

definition get_processed_contract ::
  "pylib \<Rightarrow> datetime \<Rightarrow> DBManager \<Rightarrow> string \<Rightarrow> ProcessedContract option" where
  "get_processed_contract lib now db addr =
     (case stored_contracts db of
        JList cs \<Rightarrow> find_contract lib now addr cs
      | _ \<Rightarrow> None)"

definition is_contract_processed :: "pylib \<Rightarrow> datetime \<Rightarrow> DBManager \<Rightarrow> string \<Rightarrow> bool" where
  "is_contract_processed lib now db addr =
     (case get_processed_contract lib now db addr of
        None \<Rightarrow> False
      | Some c \<Rightarrow> c_status c = COMPLETED)"

definition get_pending_holders :: "pylib \<Rightarrow> DBManager \<Rightarrow> string \<Rightarrow> TokenHolder list" where
  "get_pending_holders lib db addr =
     (let data = load_json db pending_holders_file in
      case (case map_of data ''pending'' of None \<Rightarrow> JObj [] | Some v \<Rightarrow> v) of
        JObj pending \<Rightarrow>
          (case map_of pending addr of
             Some v \<Rightarrow>
               (case and_then (py_iter v) (map_exn (TokenHolder_from_dict lib)) of
                  Inl x \<Rightarrow> []
                | Inr hs \<Rightarrow> hs)
           | None \<Rightarrow> [])
      | _ \<Rightarrow> [])"

definition add_pending_holders ::
  "disk \<Rightarrow> pylib \<Rightarrow> DBManager \<Rightarrow> string \<Rightarrow> holder_obj list \<Rightarrow> db_result" where
  "add_pending_holders dsk lib db addr hs = swallow
     (let data = load_json db pending_holders_file in
      case (case map_of data ''pending'' of None \<Rightarrow> JObj [] | Some v \<Rightarrow> v) of
        JObj pending \<Rightarrow>
          (let existing_holders = get_pending_holders lib db addr;
               existing_addresses = set (map address existing_holders);
               new_holders = filter (\<lambda>h. holder_address h \<notin> existing_addresses) hs;
               all_holders = map DbHolder existing_holders @ new_holders
           in save_json dsk pending_holders_file
                (JObj [(''pending'',
                        JObj (AList.update addr (JList (map (holder_to_dict lib) all_holders)) pending))])
                db)
      | _ \<Rightarrow> (Some TypeError, db))"

text \<open>\<^verbatim>\<open>_initialize_db\<close> on an empty directory.\<close>

definition initial_db :: DBManager where
  "initial_db =
     \<lparr>processed_contracts = Some (get_default_data processed_contracts_file),
      pending_holders = Some (get_default_data pending_holders_file),
      parsing_progress = Some (get_default_data parsing_progress_file)\<rparr>"

section \<open>proxy\_manager.py\<close>

text \<open>
  \<^verbatim>\<open>time.time()\<close> is a real number of seconds. The pool is a dictionary from the proxy's
  URL to its status, in the order of the proxy file; \<open>data_file\<close> is the snapshot on
  disk (\<open>None\<close>: no readable snapshot).
\<close>

record ProxyStatus =
  url :: string
  is_working :: bool
  fails_count :: int
  last_used :: real
  cooldown_until :: "real option"
  requests_count :: int

definition COOLDOWN_TIME :: real where
  "COOLDOWN_TIME = 120"

definition MAX_FAILS :: int where
  "MAX_FAILS = 20"

definition MAX_REQUESTS_PER_PROXY :: int where
  "MAX_REQUESTS_PER_PROXY = 200"

record ProxyManager =
  proxies :: "(string \<times> ProxyStatus) list"
  current_proxy_index :: nat
  data_file :: "(string \<times> ProxyStatus) list option"

text \<open>\<^verbatim>\<open>ProxyStatus(url=proxy)\<close>, created at time \<open>t\<close>.\<close>

definition new_status :: "string \<Rightarrow> real \<Rightarrow> ProxyStatus" where
  "new_status u t =
     \<lparr>url = u, is_working = True, fails_count = 0, last_used = t, cooldown_until = None,
      requests_count = 0\<rparr>"

text \<open>\<^verbatim>\<open>_save_proxy_data\<close> has no handler: an exception of the write leaves the method.\<close>

fun save_proxy_data :: "disk \<Rightarrow> ProxyManager \<Rightarrow> exn option \<times> ProxyManager" where
  "save_proxy_data Works pm = (None, pm\<lparr>data_file := Some (proxies pm)\<rparr>)"
| "save_proxy_data OpenFails pm = (Some OSError, pm)"
| "save_proxy_data DumpFails pm = (Some OSError, pm\<lparr>data_file := None\<rparr>)"

definition set_cooldown :: "disk \<Rightarrow> real \<Rightarrow> string \<Rightarrow> ProxyManager \<Rightarrow> exn option \<times> ProxyManager" where
  "set_cooldown dsk now u pm =
     (case map_of (proxies pm) u of
        None \<Rightarrow> (Some KeyError, pm)
      | Some st \<Rightarrow>
          save_proxy_data dsk
            (pm\<lparr>proxies :=
                  AList.update u (st\<lparr>cooldown_until := Some (now + COOLDOWN_TIME), requests_count := 0\<rparr>)
                    (proxies pm)\<rparr>))"

definition handle_proxy_error :: "disk \<Rightarrow> real \<Rightarrow> string \<Rightarrow> ProxyManager \<Rightarrow> exn option \<times> ProxyManager" where
  "handle_proxy_error dsk now u pm =
     (case map_of (proxies pm) u of
        None \<Rightarrow> (Some KeyError, pm)
      | Some st \<Rightarrow>
          (let st1 = st\<lparr>fails_count := fails_count st + 1\<rparr> in
           then_do
             (if fails_count st1 \<ge> MAX_FAILS
              then set_cooldown dsk now u
                     (pm\<lparr>proxies := AList.update u (st1\<lparr>is_working := False\<rparr>) (proxies pm)\<rparr>)
              else (None, pm\<lparr>proxies := AList.update u st1 (proxies pm)\<rparr>))
             (save_proxy_data dsk)))"

definition handle_proxy_success :: "disk \<Rightarrow> real \<Rightarrow> string \<Rightarrow> ProxyManager \<Rightarrow> exn option \<times> ProxyManager" where
  "handle_proxy_success dsk now u pm =
     (case map_of (proxies pm) u of
        None \<Rightarrow> (Some KeyError, pm)
      | Some st \<Rightarrow>
          save_proxy_data dsk
            (pm\<lparr>proxies :=
                  AList.update u
                    (st\<lparr>fails_count := 0, requests_count := requests_count st + 1, last_used := now\<rparr>)
                    (proxies pm)\<rparr>))"

text \<open>
  The loop of \<^verbatim>\<open>_get_next_available_proxy\<close>, with the attempts left. The clock is read
  as \<open>now\<close> throughout one call. \<^verbatim>\<open>if proxy_status.cooldown_until and ...\<close> takes a
  cooldown of \<^verbatim>\<open>None\<close> or \<open>0.0\<close> as unset.
\<close>

fun next_proxy :: "disk \<Rightarrow> real \<Rightarrow> nat \<Rightarrow> ProxyManager \<Rightarrow> (exn + string option) \<times> ProxyManager" where
  "next_proxy dsk now 0 pm = (Inr None, pm)"
| "next_proxy dsk now (Suc n) pm =
     (if proxies pm = [] then (Inl ZeroDivisionError, pm)
      else
        (let i = (current_proxy_index pm + 1) mod length (proxies pm);
             pm1 = pm\<lparr>current_proxy_index := i\<rparr>;
             u = fst (proxies pm ! i);
             st = snd (proxies pm ! i)
         in if \<not> is_working st then next_proxy dsk now n pm1
            else if (case cooldown_until st of None \<Rightarrow> False | Some t \<Rightarrow> t \<noteq> 0 \<and> now < t)
            then next_proxy dsk now n pm1
            else if requests_count st \<ge> MAX_REQUESTS_PER_PROXY
            then (case set_cooldown dsk now u pm1 of
                    (Some e, pm2) \<Rightarrow> (Inl e, pm2)
                  | (None, pm2) \<Rightarrow> next_proxy dsk now n pm2)
            else (Inr (Some u), pm1)))"

definition get_next_available_proxy ::
  "disk \<Rightarrow> real \<Rightarrow> ProxyManager \<Rightarrow> (exn + string option) \<times> ProxyManager" where
  "get_next_available_proxy dsk now pm = next_proxy dsk now (length (proxies pm)) pm"


section \<open>config.py, get\_chain.py, api\_key\_manager.py\<close>

definition CHAIN_MAPPING :: "(string \<times> string) list" where
  "CHAIN_MAPPING =
     [(''ethereum'', ''1''), (''polygon'', ''137''), (''bsc'', ''56''), (''avalanche'', ''43114''),
      (''arbitrum'', ''42161''), (''optimism'', ''10''), (''base'', ''8453''), (''zksync'', ''324''),
      (''merlin'', ''4200'')]"

text \<open>\<^verbatim>\<open>str.lower\<close>, on ASCII.\<close>

definition lower_char :: "char \<Rightarrow> char" where
  "lower_char c =
     (if (65::nat) \<le> of_char c \<and> of_char c \<le> (90::nat) then char_of (of_char c + (32::nat)) else c)"

definition lower :: "string \<Rightarrow> string" where
  "lower s = map lower_char s"

definition get_chain_id :: "string \<Rightarrow> string option" where
  "get_chain_id chain_name = map_of CHAIN_MAPPING (lower chain_name)"

record Contract =
  k_address :: string
  k_chain :: string

definition chain_id :: "Contract \<Rightarrow> string option" where
  "chain_id c = get_chain_id (k_chain c)"

text \<open>
  The keys loaded from the file and the position of \<^verbatim>\<open>itertools.cycle\<close> in them.
\<close>

record ApiKeyManager =
  api_keys :: "string list"
  key_cycle :: nat

definition get_next_key :: "ApiKeyManager \<Rightarrow> string option \<times> ApiKeyManager" where
  "get_next_key km =
     (if api_keys km = [] then (None, km)
      else (Some (api_keys km ! (key_cycle km mod length (api_keys km))),
            km\<lparr>key_cycle := Suc (key_cycle km)\<rparr>))"

section \<open>models.py: ApiResponse\<close>

text \<open>
  An entry of \<^verbatim>\<open>data\<close> is an address, or an object with an \<^verbatim>\<open>"address"\<close>. The body of a
  reply is a JSON object; each of the keys the code reads is absent, or \<^verbatim>\<open>null\<close>, or
  holds a value of the type of the dataclass field.
\<close>

datatype api_item = AddressStr string | AddressObj string

fun item_address :: "api_item \<Rightarrow> string" where
  "item_address (AddressStr a) = a"
| "item_address (AddressObj a) = a"

datatype 'a field = Absent | IsNull | Holds 'a

text \<open>\<^verbatim>\<open>data.get(key, default)\<close>: the default stands for an absent key only.\<close>

fun get_default :: "'a field \<Rightarrow> 'a \<Rightarrow> 'a option" where
  "get_default Absent d = Some d"
| "get_default IsNull d = None"
| "get_default (Holds v) d = Some v"

text \<open>\<^verbatim>\<open>data.get(key)\<close>\<close>

fun get_field :: "'a field \<Rightarrow> 'a option" where
  "get_field Absent = None"
| "get_field IsNull = None"
| "get_field (Holds v) = Some v"

record reply_body =
  b_code :: "int field"
  b_message :: "string field"
  b_data :: "api_item list field"
  b_next_page :: "int field"
  b_count :: "int field"

text \<open>The attributes of the two dataclasses; \<open>None\<close> is Python's \<^verbatim>\<open>None\<close>.\<close>

datatype payload =
    SuccessResponse "int option" "string option" "api_item list option" "int option" "int option"
  | ErrorResponse "int option" "string option"

fun message :: "payload \<Rightarrow> string option" where
  "message (SuccessResponse c m d n k) = m"
| "message (ErrorResponse c m) = m"

record ApiResponse =
  status_code :: int
  response :: "payload option"

definition from_response :: "int \<Rightarrow> reply_body \<Rightarrow> ApiResponse" where
  "from_response st b =
     (if 200 \<le> st \<and> st < 300
      then \<lparr>status_code = st,
            response = Some (SuccessResponse (get_default (b_code b) 0) (get_default (b_message b) [])
                               (get_default (b_data b) []) (get_field (b_next_page b))
                               (get_default (b_count b) 0))\<rparr>
      else \<lparr>status_code = st,
            response = Some (ErrorResponse (get_default (b_code b) 0) (get_default (b_message b) []))\<rparr>)"

definition is_success :: "ApiResponse \<Rightarrow> bool" where
  "is_success r = (200 \<le> status_code r \<and> status_code r < 300)"

definition has_next_page :: "ApiResponse \<Rightarrow> bool" where
  "has_next_page r =
     (case response r of
        Some (SuccessResponse c m d n k) \<Rightarrow> is_success r \<and> n \<noteq> None
      | _ \<Rightarrow> False)"

section \<open>The world of one engine run\<close>

text \<open>
  What \<^verbatim>\<open>session.get\<close> and \<^verbatim>\<open>response.json()\<close> give: a status with a JSON body, or an
  exception (a timeout, a refused connection, a body that is not JSON).
\<close>

datatype http_outcome = HttpReply int reply_body | RequestRaises

text \<open>
  \<open>upstream n p\<close> answers the request number \<open>n\<close> of the run (from 0) when it asks for
  page \<open>p\<close>. \<open>clock\<close> is \<^verbatim>\<open>datetime.now()\<close> and \<open>timer\<close> is \<^verbatim>\<open>time.time()\<close>, read as
  constant over the run. \<open>interrupt_at\<close> is for get\_holders.py: the global
  \<^verbatim>\<open>is_interrupted\<close> is true from the read of that number on (the signal handler only
  ever sets it).
\<close>

record world =
  upstream :: "nat \<Rightarrow> int \<Rightarrow> http_outcome"
  clock :: datetime
  timer :: real
  the_disk :: disk
  interrupt_at :: "nat option"

text \<open>
  The \<^verbatim>\<open>TokenHoldersService\<close> object, and the pages asked of the upstream so far.
\<close>

record Service =
  db_manager :: DBManager
  proxy_manager :: ProxyManager
  api_key_manager :: ApiKeyManager
  requests :: "int list"

text \<open>The text of the generic error message, transliterated.\<close>

definition unknown_error :: string where
  "unknown_error = ''Neizvestnaya oshibka''"

text \<open>
  \<^verbatim>\<open>_make_async_request\<close>, the method under the decorator: \<^verbatim>\<open>None\<close> without a chain
  id, without a key, and on an exception of the request.
\<close>

definition make_async_request ::
  "world \<Rightarrow> Contract \<Rightarrow> int \<Rightarrow> Service \<Rightarrow> ApiResponse option \<times> Service" where
  "make_async_request w c page sv =
     (if chain_id c = None \<or> chain_id c = Some [] then (None, sv)
      else
        (let r = get_next_key (api_key_manager sv);
             sv1 = sv\<lparr>api_key_manager := snd r\<rparr>
         in if fst r = None \<or> fst r = Some [] then (None, sv1)
            else
              (let sv2 = sv1\<lparr>requests := requests sv1 @ [page]\<rparr>
               in case upstream w (length (requests sv1)) page of
                    RequestRaises \<Rightarrow> (None, sv2)
                  | HttpReply st b \<Rightarrow> (Some (from_response st b), sv2))))"

text \<open>
  The wrapper of \<^verbatim>\<open>ProxyManager.with_proxy\<close>: no proxy raises; a call that returns
  reports success to the pool, whatever it returned; an exception in the \<^verbatim>\<open>try\<close>
  reports an error and is raised again.
\<close>

definition with_proxy ::
  "world \<Rightarrow> Contract \<Rightarrow> int \<Rightarrow> Service \<Rightarrow> (exn + ApiResponse option) \<times> Service" where
  "with_proxy w c page sv =
     (case get_next_available_proxy (the_disk w) (timer w) (proxy_manager sv) of
        (Inl e, pm) \<Rightarrow> (Inl e, sv\<lparr>proxy_manager := pm\<rparr>)
      | (Inr None, pm) \<Rightarrow> (Inl NoProxy, sv\<lparr>proxy_manager := pm\<rparr>)
      | (Inr (Some u), pm) \<Rightarrow>
          (let r = make_async_request w c page (sv\<lparr>proxy_manager := pm\<rparr>);
               sv1 = snd r
           in case handle_proxy_success (the_disk w) (timer w) u (proxy_manager sv1) of
                (None, pm1) \<Rightarrow> (Inr (fst r), sv1\<lparr>proxy_manager := pm1\<rparr>)
              | (Some e, pm1) \<Rightarrow>
                  (case handle_proxy_error (the_disk w) (timer w) u pm1 of
                     (None, pm2) \<Rightarrow> (Inl e, sv1\<lparr>proxy_manager := pm2\<rparr>)
                   | (Some e2, pm2) \<Rightarrow> (Inl e2, sv1\<lparr>proxy_manager := pm2\<rparr>))))"

text \<open>A method of the service on its \<open>db_manager\<close>.\<close>

definition on_db :: "(DBManager \<Rightarrow> db_result) \<Rightarrow> Service \<Rightarrow> exn option \<times> Service" where
  "on_db f sv = (case f (db_manager sv) of (e, db) \<Rightarrow> (e, sv\<lparr>db_manager := db\<rparr>))"

text \<open>
  \<^verbatim>\<open>error_msg = response.response.message if response and response.response else ...\<close>:
  the message of the response object as it is, \<^verbatim>\<open>None\<close> and the empty string included.
\<close>

definition error_msg :: "ApiResponse option \<Rightarrow> string option" where
  "error_msg r =
     (case r of
        None \<Rightarrow> Some unknown_error
      | Some a \<Rightarrow> (case response a of None \<Rightarrow> Some unknown_error | Some p \<Rightarrow> message p))"

text \<open>\<^verbatim>\<open>not response or not response.is_success\<close>\<close>

definition failed :: "ApiResponse option \<Rightarrow> bool" where
  "failed r = (case r of None \<Rightarrow> True | Some a \<Rightarrow> \<not> is_success a)"

section \<open>services/token\_holders\_service.py\<close>

definition ts_save_progress ::
  "world \<Rightarrow> pylib \<Rightarrow> string \<Rightarrow> int \<Rightarrow> int option \<Rightarrow> m_ParsingStatus \<Rightarrow> string option \<Rightarrow> Service
     \<Rightarrow> exn option \<times> Service" where
  "ts_save_progress w lib addr page tot st msg sv =
     on_db (\<lambda>db. save_parsing_progress (the_disk w) lib db
              (ModelsProgress \<lparr>mp_contract_address = addr, mp_current_page = page,
                 mp_total_pages = tot, mp_last_processed_at = clock w, mp_status = st,
                 mp_error_message = msg\<rparr>)) sv"

definition ts_save_holders ::
  "world \<Rightarrow> pylib \<Rightarrow> Contract \<Rightarrow> api_item list \<Rightarrow> TokenHolder list \<Rightarrow> m_ParsingStatus \<Rightarrow> Service
     \<Rightarrow> exn option \<times> Service" where
  "ts_save_holders w lib c new_holders existing_holders st sv =
     (let existing_addresses = set (map address existing_holders);
          new_token_holders =
            map (\<lambda>h. \<lparr>m_address = item_address h, m_balance = ''0''\<rparr>)
              (filter (\<lambda>h. item_address h \<notin> existing_addresses) new_holders);
          all_token_holders = map DbHolder existing_holders @ map ModelsHolder new_token_holders;
          processed_contract =
            \<lparr>mc_address = k_address c, mc_chain = k_chain c, mc_processed_at = clock w,
             mc_holders_count = int (length all_token_holders), mc_holders = all_token_holders,
             mc_status = st\<rparr>
      in then_do
           (on_db (\<lambda>db. save_processed_contract (the_disk w) lib (clock w) db
                     (ModelsContract processed_contract)) sv)
           (\<lambda>sv1. if new_token_holders \<noteq> []
                  then on_db (\<lambda>db. add_pending_holders (the_disk w) lib db (k_address c)
                                (map ModelsHolder new_token_holders)) sv1
                  else (None, sv1)))"

text \<open>
  The \<^verbatim>\<open>while True\<close> loop of \<^verbatim>\<open>_get_holders_async\<close>, with fuel: \<open>None\<close> is a loop that
  has not ended within it. It ends with an exception, or with \<^verbatim>\<open>all_holders\<close> at the
  \<^verbatim>\<open>break\<close>. \<^verbatim>\<open>all_holders.extend(None)\<close> raises \<^verbatim>\<open>TypeError\<close>.
\<close>

fun ts_loop ::
  "world \<Rightarrow> pylib \<Rightarrow> Contract \<Rightarrow> TokenHolder list \<Rightarrow> nat \<Rightarrow> int \<Rightarrow> api_item list \<Rightarrow> Service
     \<Rightarrow> ((exn + api_item list) \<times> Service) option" where
  "ts_loop w lib c existing_holders 0 page all_holders sv = None"
| "ts_loop w lib c existing_holders (Suc fuel) page all_holders sv =
     (case with_proxy w c page sv of
        (Inl e, sv1) \<Rightarrow> Some (Inl e, sv1)
      | (Inr r, sv1) \<Rightarrow>
          if failed r then
            Some (Inr all_holders,
                  snd (ts_save_progress w lib (k_address c) page None M_FAILED
                         (error_msg r) sv1))
          else
            (case (case r of None \<Rightarrow> None | Some a \<Rightarrow> response a) of
               Some (SuccessResponse cd m None n k) \<Rightarrow> Some (Inl TypeError, sv1)
             | Some (SuccessResponse cd m (Some d) n k) \<Rightarrow>
                 (let all_holders1 = all_holders @ d;
                      sv2 = snd (ts_save_progress w lib (k_address c) page None
                                   M_IN_PROGRESS None sv1)
                  in case ts_save_holders w lib c all_holders1 existing_holders M_IN_PROGRESS sv2 of
                       (Some e, sv3) \<Rightarrow> Some (Inl e, sv3)
                     | (None, sv3) \<Rightarrow>
                         (case n of
                            None \<Rightarrow> Some (Inr all_holders1, sv3)
                          | Some next_page \<Rightarrow>
                              ts_loop w lib c existing_holders fuel next_page all_holders1 sv3))
             | _ \<Rightarrow> Some (Inl AttributeError, sv1)))"

text \<open>
  \<^verbatim>\<open>_get_holders_async\<close>. The statuses it compares with are members of
  \<^verbatim>\<open>models.ParsingStatus\<close>; the records \<open>db_manager\<close> returns carry members of
  \<^verbatim>\<open>db_manager.ParsingStatus\<close>.
\<close>

definition ts_get_holders_async ::
  "world \<Rightarrow> pylib \<Rightarrow> Contract \<Rightarrow> nat \<Rightarrow> Service \<Rightarrow> ((exn + api_item list) \<times> Service) option" where
  "ts_get_holders_async w lib c fuel sv =
     (let processed_contract =
            get_processed_contract lib (clock w) (db_manager sv) (k_address c)
      in if (case processed_contract of
               None \<Rightarrow> False
             | Some pc \<Rightarrow> DbStatus (c_status pc) = ModelsStatus M_COMPLETED)
         then Some (Inr [], sv)
         else
           (let existing_holders = (case processed_contract of None \<Rightarrow> [] | Some pc \<Rightarrow> holders pc);
                progress = get_parsing_progress lib (db_manager sv) (k_address c);
                start_page =
                  (case progress of
                     None \<Rightarrow> 1
                   | Some p \<Rightarrow>
                       if DbStatus (status p) = ModelsStatus M_IN_PROGRESS then current_page p else 1)
            in case ts_loop w lib c existing_holders fuel start_page [] sv of
                 None \<Rightarrow> None
               | Some (Inl e, sv1) \<Rightarrow> Some (Inl e, sv1)
               | Some (Inr all_holders, sv1) \<Rightarrow>
                   if nonempty all_holders \<or> nonempty existing_holders then
                     (case ts_save_holders w lib c all_holders existing_holders M_COMPLETED sv1 of
                        (Some e, sv2) \<Rightarrow> Some (Inl e, sv2)
                      | (None, sv2) \<Rightarrow> Some (Inr all_holders, sv2))
                   else Some (Inr all_holders, sv1)))"


section \<open>get\_holders.py\<close>

text \<open>
  The engine of get\_holders.py works on the classes of db\_manager.py and watches the
  global \<^verbatim>\<open>is_interrupted\<close>.
\<close>

definition interrupted :: "world \<Rightarrow> nat \<Rightarrow> bool" where
  "interrupted w k = (case interrupt_at w of None \<Rightarrow> False | Some n \<Rightarrow> n \<le> k)"

definition gh_save_progress :: "world \<Rightarrow> pylib \<Rightarrow> ParsingProgress \<Rightarrow> Service \<Rightarrow> exn option \<times> Service" where
  "gh_save_progress w lib p sv =
     on_db (\<lambda>db. save_parsing_progress (the_disk w) lib db (DbProgress p)) sv"

definition gh_save_intermediate_holders ::
  "world \<Rightarrow> pylib \<Rightarrow> Contract \<Rightarrow> api_item list \<Rightarrow> TokenHolder list \<Rightarrow> ParsingStatus \<Rightarrow> Service
     \<Rightarrow> exn option \<times> Service" where
  "gh_save_intermediate_holders w lib c new_holders existing_holders st sv =
     (let existing_addresses = set (map address existing_holders);
          new_token_holders =
            map (\<lambda>h. \<lparr>address = item_address h, balance = ''0'', processed = False,
                       processed_at = None\<rparr>)
              (filter (\<lambda>h. item_address h \<notin> existing_addresses) new_holders);
          all_token_holders = existing_holders @ new_token_holders;
          processed_contract =
            \<lparr>c_address = k_address c, c_chain = k_chain c, c_processed_at = clock w,
             holders_count = int (length all_token_holders), holders = all_token_holders,
             c_status = st\<rparr>
      in then_do
           (on_db (\<lambda>db. save_processed_contract (the_disk w) lib (clock w) db
                     (DbContract processed_contract)) sv)
           (\<lambda>sv1. if new_token_holders \<noteq> []
                  then on_db (\<lambda>db. add_pending_holders (the_disk w) lib db (k_address c)
                                (map DbHolder new_token_holders)) sv1
                  else (None, sv1)))"

text \<open>
  The local variables of \<^verbatim>\<open>_get_holders_async\<close> that outlive the loop; \<open>v_response\<close>
  is \<open>None\<close> while \<^verbatim>\<open>response\<close> is unbound. \<open>v_reads\<close> counts the reads of
  \<^verbatim>\<open>is_interrupted\<close>.
\<close>

record gh_vars =
  v_page :: int
  v_holders :: "api_item list"
  v_response :: "ApiResponse option option"
  v_progress :: "ParsingProgress option"
  v_reads :: nat

text \<open>The \<^verbatim>\<open>while not is_interrupted\<close> loop, with fuel.\<close>

fun gh_loop ::
  "world \<Rightarrow> pylib \<Rightarrow> Contract \<Rightarrow> TokenHolder list \<Rightarrow> nat \<Rightarrow> gh_vars \<Rightarrow> Service
     \<Rightarrow> ((exn + gh_vars) \<times> Service) option" where
  "gh_loop w lib c existing_holders 0 vs sv = None"
| "gh_loop w lib c existing_holders (Suc fuel) vs sv =
     (if interrupted w (v_reads vs) then Some (Inr (vs\<lparr>v_reads := Suc (v_reads vs)\<rparr>), sv)
      else
        (case with_proxy w c (v_page vs) sv of
           (Inl e, sv1) \<Rightarrow> Some (Inl e, sv1)
         | (Inr r, sv1) \<Rightarrow>
             (let vs1 = vs\<lparr>v_reads := Suc (v_reads vs), v_response := Some r\<rparr> in
              if failed r then
                (let p = \<lparr>contract_address = k_address c, current_page = v_page vs,
                          total_pages = None, last_processed_at = clock w, status = FAILED,
                          error_message = error_msg r\<rparr>
                 in Some (Inr (vs1\<lparr>v_progress := Some p\<rparr>), snd (gh_save_progress w lib p sv1)))
              else
                (case (case r of None \<Rightarrow> None | Some a \<Rightarrow> response a) of
                   Some (SuccessResponse cd m None n k) \<Rightarrow> Some (Inl TypeError, sv1)
                 | Some (SuccessResponse cd m (Some d) n k) \<Rightarrow>
                     (let all_holders1 = v_holders vs @ d;
                          p = \<lparr>contract_address = k_address c, current_page = v_page vs,
                               total_pages = None, last_processed_at = clock w,
                               status = IN_PROGRESS, error_message = None\<rparr>;
                          vs2 = vs1\<lparr>v_holders := all_holders1, v_progress := Some p\<rparr>;
                          sv2 = snd (gh_save_progress w lib p sv1)
                      in case (if all_holders1 \<noteq> []
                               then gh_save_intermediate_holders w lib c all_holders1
                                      existing_holders IN_PROGRESS sv2
                               else (None, sv2)) of
                           (Some e, sv3) \<Rightarrow> Some (Inl e, sv3)
                         | (None, sv3) \<Rightarrow>
                             (case n of
                                None \<Rightarrow> Some (Inr vs2, sv3)
                              | Some next_page \<Rightarrow>
                                  gh_loop w lib c existing_holders fuel (vs2\<lparr>v_page := next_page\<rparr>) sv3))
                 | _ \<Rightarrow> Some (Inr vs1, sv1)))))"

text \<open>What follows the loop when the run was interrupted or its last response failed.\<close>

definition gh_save_unfinished ::
  "world \<Rightarrow> pylib \<Rightarrow> Contract \<Rightarrow> TokenHolder list \<Rightarrow> gh_vars \<Rightarrow> Service
     \<Rightarrow> ((exn + api_item list) \<times> Service) option" where
  "gh_save_unfinished w lib c existing_holders vs sv =
     (let p = \<lparr>contract_address = k_address c, current_page = v_page vs,
               total_pages = (case v_progress vs of None \<Rightarrow> None | Some q \<Rightarrow> total_pages q),
               last_processed_at = clock w, status = IN_PROGRESS, error_message = None\<rparr>;
          sv1 = snd (gh_save_progress w lib p sv)
      in case (if v_holders vs \<noteq> []
               then gh_save_intermediate_holders w lib c (v_holders vs) existing_holders
                      IN_PROGRESS sv1
               else (None, sv1)) of
           (Some e, sv2) \<Rightarrow> Some (Inl e, sv2)
         | (None, sv2) \<Rightarrow> Some (Inr (v_holders vs), sv2))"

text \<open>What follows the loop otherwise.\<close>

definition gh_save_completed ::
  "world \<Rightarrow> pylib \<Rightarrow> Contract \<Rightarrow> TokenHolder list \<Rightarrow> gh_vars \<Rightarrow> Service
     \<Rightarrow> ((exn + api_item list) \<times> Service) option" where
  "gh_save_completed w lib c existing_holders vs sv =
     (if nonempty (v_holders vs) \<or> nonempty existing_holders then
        (case gh_save_intermediate_holders w lib c (v_holders vs) existing_holders COMPLETED sv of
           (Some e, sv1) \<Rightarrow> Some (Inl e, sv1)
         | (None, sv1) \<Rightarrow> Some (Inr (v_holders vs), sv1))
      else Some (Inr (v_holders vs), sv))"

definition gh_get_holders_async ::
  "world \<Rightarrow> pylib \<Rightarrow> Contract \<Rightarrow> nat \<Rightarrow> Service \<Rightarrow> ((exn + api_item list) \<times> Service) option" where
  "gh_get_holders_async w lib c fuel sv =
     (let processed_contract =
            get_processed_contract lib (clock w) (db_manager sv) (k_address c)
      in if (case processed_contract of None \<Rightarrow> False | Some pc \<Rightarrow> c_status pc = COMPLETED)
         then Some (Inr [], sv)
         else
           (let existing_holders = (case processed_contract of None \<Rightarrow> [] | Some pc \<Rightarrow> holders pc);
                progress = get_parsing_progress lib (db_manager sv) (k_address c);
                start_page =
                  (case progress of
                     None \<Rightarrow> 1
                   | Some p \<Rightarrow> if status p = IN_PROGRESS then current_page p else 1)
            in case gh_loop w lib c existing_holders fuel
                      \<lparr>v_page = start_page, v_holders = [], v_response = None,
                       v_progress = progress, v_reads = 0\<rparr> sv of
                 None \<Rightarrow> None
               | Some (Inl e, sv1) \<Rightarrow> Some (Inl e, sv1)
               | Some (Inr vs, sv1) \<Rightarrow>
                   if interrupted w (v_reads vs)
                   then gh_save_unfinished w lib c existing_holders vs sv1
                   else
                     (case v_response vs of
                        None \<Rightarrow> Some (Inl UnboundLocalError, sv1)
                      | Some r \<Rightarrow>
                          if failed r then gh_save_unfinished w lib c existing_holders vs sv1
                          else gh_save_completed w lib c existing_holders vs sv1)))"


section \<open>Vocabulary of the statements\<close>

text \<open>
  What the development uses of the \<^verbatim>\<open>datetime\<close> library: \<^verbatim>\<open>fromisoformat\<close> inverts
  \<^verbatim>\<open>isoformat\<close>, and the ISO text of a datetime is not empty.
\<close>

definition lib_ok :: "pylib \<Rightarrow> bool" where
  "lib_ok lib = (\<forall>d. fromisoformat lib (isoformat lib d) = Some d \<and> isoformat lib d \<noteq> [])"

text \<open>
  A stand-in library for the closed instances: the ISO text of \<open>d\<close> is a sign and
  \<open>\<bar>d\<bar>\<close> strokes. \<open>str_of\<close> and \<open>int_of_str\<close> are never reached in them.
\<close>

definition iso0 :: "datetime \<Rightarrow> string" where
  "iso0 d = (if d < 0 then CHR ''-'' else CHR ''+'') # replicate (nat \<bar>d\<bar>) CHR ''I''"

definition parse0 :: "string \<Rightarrow> datetime option" where
  "parse0 s =
     (case s of
        [] \<Rightarrow> None
      | c # r \<Rightarrow>
          if r = replicate (length r) CHR ''I'' then
            (if c = CHR ''+'' then Some (int (length r))
             else if c = CHR ''-'' \<and> r \<noteq> [] then Some (- int (length r))
             else None)
          else None)"

definition lib0 :: pylib where
  "lib0 = \<lparr>isoformat = iso0, fromisoformat = parse0, str_of = (\<lambda>x. []), int_of_str = (\<lambda>s. None)\<rparr>"

text \<open>Every record of the list is a dictionary whose \<^verbatim>\<open>"address"\<close> is not \<open>addr\<close>.\<close>

definition other_records :: "string \<Rightarrow> json list \<Rightarrow> bool" where
  "other_records addr cs =
     list_all (\<lambda>x. case dict_get x ''address'' of Inl e \<Rightarrow> False | Inr a \<Rightarrow> a \<noteq> Some (JStr addr)) cs"

text \<open>The status has a value that \<^verbatim>\<open>db_manager.ParsingStatus\<close> has as well.\<close>

definition known_status :: "status_obj \<Rightarrow> bool" where
  "known_status s = (ParsingStatus_of (JStr (status_obj_value s)) \<noteq> Inl ValueError)"

text \<open>
  A sequence of \<^verbatim>\<open>save_processed_contract\<close> calls, each with the \<^verbatim>\<open>datetime.now()\<close> it
  reads; an exception ends it.
\<close>

fun save_all ::
  "disk \<Rightarrow> pylib \<Rightarrow> DBManager \<Rightarrow> (datetime \<times> contract_arg) list \<Rightarrow> db_result" where
  "save_all dsk lib db [] = (None, db)"
| "save_all dsk lib db (x # xs) =
     then_do (save_processed_contract dsk lib (fst x) db (snd x)) (\<lambda>db'. save_all dsk lib db' xs)"

text \<open>No two holders of the record share an address, and its count is their number.\<close>

definition deduplicated :: "ProcessedContract \<Rightarrow> bool" where
  "deduplicated c =
     (distinct (map address (holders c)) \<and> holders_count c = int (length (holders c)))"

text \<open>What \<^verbatim>\<open>TokenHolder.from_dict\<close> makes of \<^verbatim>\<open>h.to_dict()\<close>.\<close>

definition as_db :: "holder_obj \<Rightarrow> TokenHolder" where
  "as_db h =
     (case h of
        DbHolder d \<Rightarrow> d
      | ModelsHolder m \<Rightarrow>
          \<lparr>address = m_address m, balance = m_balance m, processed = False, processed_at = None\<rparr>)"

text \<open>
  The invariant of the stored record of \<open>addr\<close>: it is the first record with that address,
  it deserializes, and it is deduplicated.
\<close>

definition stored_good :: "pylib \<Rightarrow> DBManager \<Rightarrow> string \<Rightarrow> bool" where
  "stored_good lib db addr =
     (\<exists>pre e post pc. stored_contracts db = JList (pre @ e # post) \<and> other_records addr pre
        \<and> dict_get e ''address'' = Inr (Some (JStr addr))
        \<and> (\<forall>now. ProcessedContract_from_dict lib now e = Some pc) \<and> deduplicated pc)"

text \<open>Values of the closed instances.\<close>

definition holder1 :: TokenHolder where
  "holder1 = \<lparr>address = ''0x1'', balance = ''0'', processed = False, processed_at = None\<rparr>"

definition holder2 :: TokenHolder where
  "holder2 = \<lparr>address = ''0x2'', balance = ''0'', processed = False, processed_at = None\<rparr>"

definition dup_record :: ProcessedContract where
  "dup_record = \<lparr>c_address = ''0xA'', c_chain = ''ethereum'', c_processed_at = 0, holders_count = 7,
     holders = [holder1, holder1], c_status = IN_PROGRESS\<rparr>"

definition bogus_entry :: json where
  "bogus_entry = JObj [(''address'', JStr ''0xA''), (''holders'', JList [JStr ''0x1'']),
                       (''status'', JStr ''bogus'')]"

definition bogus_db :: DBManager where
  "bogus_db = initial_db\<lparr>processed_contracts := Some (JObj [(''contracts'', JList [bogus_entry])])\<rparr>"

definition record2 :: ProcessedContract where
  "record2 = \<lparr>c_address = ''0xA'', c_chain = ''ethereum'', c_processed_at = 0, holders_count = 1,
     holders = [holder2], c_status = IN_PROGRESS\<rparr>"

definition record1 :: ProcessedContract where
  "record1 = \<lparr>c_address = ''0xA'', c_chain = ''ethereum'', c_processed_at = 0, holders_count = 1,
     holders = [holder1], c_status = IN_PROGRESS\<rparr>"

definition m_record12 :: m_ProcessedContract where
  "m_record12 = \<lparr>mc_address = ''0xA'', mc_chain = ''ethereum'', mc_processed_at = 1, mc_holders_count = 2,
     mc_holders = [DbHolder holder1, ModelsHolder \<lparr>m_address = ''0x2'', m_balance = ''0''\<rparr>],
     mc_status = M_COMPLETED\<rparr>"


text \<open>\<open>n\<close> failures of the proxy in a row, all at time \<open>now\<close>.\<close>

fun failures :: "disk \<Rightarrow> real \<Rightarrow> string \<Rightarrow> nat \<Rightarrow> ProxyManager \<Rightarrow> exn option \<times> ProxyManager" where
  "failures dsk now u 0 pm = (None, pm)"
| "failures dsk now u (Suc n) pm = then_do (handle_proxy_error dsk now u pm) (failures dsk now u n)"

text \<open>A pool of one proxy, just loaded.\<close>

definition pool1 :: ProxyManager where
  "pool1 = \<lparr>proxies = [(''http://p'', new_status ''http://p'' 0)], current_proxy_index = 0,
            data_file = None\<rparr>"


text \<open>A service on an empty database, with one proxy and one key; a contract.\<close>

definition service0 :: Service where
  "service0 = \<lparr>db_manager = initial_db, proxy_manager = pool1,
                api_key_manager = \<lparr>api_keys = [''key1''], key_cycle = 0\<rparr>, requests = []\<rparr>"

definition contract0 :: Contract where
  "contract0 = \<lparr>k_address = ''0xABC'', k_chain = ''ethereum''\<rparr>"

text \<open>
  The JSON object \<^verbatim>\<open>{}\<close>, and the replies of the closed instances: HTTP 200 with the
  addresses of a page and the number of the next page, or \<^verbatim>\<open>null\<close>.
\<close>

definition empty_body :: reply_body where
  "empty_body =
     \<lparr>b_code = Absent, b_message = Absent, b_data = Absent, b_next_page = Absent, b_count = Absent\<rparr>"

definition page_reply :: "string list \<Rightarrow> int option \<Rightarrow> http_outcome" where
  "page_reply addrs nxt =
     HttpReply 200
       (empty_body\<lparr>b_data := Holds (map AddressStr addrs),
                   b_next_page := (case nxt of None \<Rightarrow> IsNull | Some n \<Rightarrow> Holds n)\<rparr>)"

definition world0 :: "(nat \<Rightarrow> int \<Rightarrow> http_outcome) \<Rightarrow> world" where
  "world0 up = \<lparr>upstream = up, clock = 0, timer = 0, the_disk = Works, interrupt_at = None\<rparr>"

text \<open>Page 1 holds \<open>0x1\<close> and names page 2; page 2 answers HTTP 500.\<close>

definition second_page_fails :: "nat \<Rightarrow> int \<Rightarrow> http_outcome" where
  "second_page_fails n p =
     (if p = 1 then page_reply [''0x1''] (Some 2)
      else HttpReply 500 (empty_body\<lparr>b_message := Holds ''boom''\<rparr>))"

text \<open>Every page holds \<open>0x1\<close> and is the last.\<close>

definition single_page :: "nat \<Rightarrow> int \<Rightarrow> http_outcome" where
  "single_page n p = page_reply [''0x1''] None"

text \<open>Every request answers HTTP 500, with the JSON object \<open>b\<close>.\<close>

definition always_500 :: "reply_body \<Rightarrow> nat \<Rightarrow> int \<Rightarrow> http_outcome" where
  "always_500 b n p = HttpReply 500 b"

text \<open>The database with a progress record of page 5, in progress, for \<open>contract0\<close>.\<close>

definition progress5 :: ParsingProgress where
  "progress5 = \<lparr>contract_address = ''0xABC'', current_page = 5, total_pages = None,
                 last_processed_at = 0, status = IN_PROGRESS, error_message = None\<rparr>"

definition service5 :: Service where
  "service5 = service0\<lparr>db_manager :=
       snd (save_parsing_progress Works lib0 initial_db (DbProgress progress5))\<rparr>"


text \<open>
  What is seen of a run that has ended: what it returned or raised, the pages it asked
  of the upstream, the status and the holder addresses of the stored record of the
  contract, and its progress record.
\<close>

record observation =
  returned :: "exn + api_item list"
  asked :: "int list"
  stored :: "(ParsingStatus \<times> string list) option"
  progress :: "ParsingProgress option"

definition observe ::
  "pylib \<Rightarrow> string \<Rightarrow> ((exn + api_item list) \<times> Service) option \<Rightarrow> observation option" where
  "observe lib addr r =
     map_option
       (\<lambda>x. \<lparr>returned = fst x, asked = requests (snd x),
              stored = map_option (\<lambda>c. (c_status c, map address (holders c)))
                         (get_processed_contract lib 0 (db_manager (snd x)) addr),
              progress = get_parsing_progress lib (db_manager (snd x)) addr\<rparr>) r"


text \<open>The table of the progress file, when it is a dictionary.\<close>

definition progress_table :: "DBManager \<Rightarrow> (string \<times> json) list option" where
  "progress_table db =
     (case map_of (load_json db parsing_progress_file) ''progress'' of
        Some (JObj pr) \<Rightarrow> Some pr
      | _ \<Rightarrow> None)"

text \<open>One run after another on the same service object.\<close>

definition then_run ::
  "((exn + api_item list) \<times> Service) option
     \<Rightarrow> (Service \<Rightarrow> ((exn + api_item list) \<times> Service) option)
     \<Rightarrow> ((exn + api_item list) \<times> Service) option" where
  "then_run r f = (case r of None \<Rightarrow> None | Some x \<Rightarrow> f (snd x))"


section \<open>Basic facts\<close>

lemma nonempty_iff [simp]: "nonempty xs = (xs \<noteq> [])"
  by (simp add: nonempty_def)

lemma and_then_Inr [simp]: "and_then (Inr x) f = f x"
  by (simp add: and_then_def)

lemma and_then_Inl [simp]: "and_then (Inl e) f = Inl e"
  by (simp add: and_then_def)

lemma lib0_ok: "lib_ok lib0"
  by (simp add: lib_ok_def lib0_def iso0_def parse0_def)

lemma status_roundtrip: "ParsingStatus_of (JStr (status_value s)) = Inr s"
  by (cases s) (simp_all add: ParsingStatus_of_def)

lemma holder_roundtrip:
  "lib_ok lib \<Longrightarrow> TokenHolder_from_dict lib (TokenHolder_to_dict lib h) = Inr h"
  by (cases "processed_at h")
     (simp_all add: lib_ok_def TokenHolder_from_dict_def TokenHolder_to_dict_def dict_get_default_def)

lemma holder_obj_roundtrip:
  assumes "lib_ok lib"
  shows "TokenHolder_from_dict lib (holder_to_dict lib h) = Inr (as_db h)"
proof (cases h)
  case (DbHolder d)
  then show ?thesis using assms by (simp add: holder_roundtrip as_db_def)
next
  case (ModelsHolder m)
  then show ?thesis by (simp add: as_db_def TokenHolder_from_dict_def dict_get_default_def)
qed

lemma holders_obj_roundtrip:
  "lib_ok lib \<Longrightarrow> map_exn (TokenHolder_from_dict lib) (map (holder_to_dict lib) hs) = Inr (map as_db hs)"
  by (induction hs) (simp_all add: holder_obj_roundtrip)

lemma holders_roundtrip:
  "lib_ok lib \<Longrightarrow> map_exn (TokenHolder_from_dict lib) (map (TokenHolder_to_dict lib) hs) = Inr hs"
  by (induction hs) (simp_all add: holder_roundtrip)

lemma progress_roundtrip:
  "lib_ok lib \<Longrightarrow> ParsingProgress_from_dict lib (ParsingProgress_to_dict lib p) = Inr p"
  by (cases "total_pages p"; cases "error_message p")
     (simp_all add: lib_ok_def ParsingProgress_from_dict_def ParsingProgress_to_dict_def
        progress_dict_def opt_int_def opt_str_def status_roundtrip)

lemma contract_dict_from_dict:
  "lib_ok lib \<Longrightarrow> ParsingStatus_of (JStr st) = Inr s \<Longrightarrow>
   ProcessedContract_from_dict lib now (contract_dict lib a ch t n (map (holder_to_dict lib) hs) st)
     = Some \<lparr>c_address = a, c_chain = ch, c_processed_at = t, holders_count = n,
            holders = map as_db hs, c_status = s\<rparr>"
  by (simp add: lib_ok_def ProcessedContract_from_dict_def contract_dict_def dict_get_default_def
        holders_obj_roundtrip caught_def)

lemma contract_roundtrip:
  "lib_ok lib \<Longrightarrow> ProcessedContract_from_dict lib now (ProcessedContract_to_dict lib c) = Some c"
  by (simp add: lib_ok_def ProcessedContract_from_dict_def ProcessedContract_to_dict_def
        contract_dict_def dict_get_default_def holders_roundtrip status_roundtrip caught_def)

section \<open>Round trip of the records\<close>

text \<open>
  Claim C9. For every \<^verbatim>\<open>ParsingProgress\<close> and every \<^verbatim>\<open>ProcessedContract\<close> of
  db\_manager.py, \<^verbatim>\<open>from_dict\<close> of \<^verbatim>\<open>to_dict\<close> is the value itself, in every field,
  given that \<^verbatim>\<open>datetime.fromisoformat\<close> inverts \<^verbatim>\<open>isoformat\<close>.
\<close>

theorem C9_round_trip:
  assumes "lib_ok lib"
  shows "ParsingProgress_from_dict lib (ParsingProgress_to_dict lib p) = Inr p
       \<and> ProcessedContract_from_dict lib now (ProcessedContract_to_dict lib c) = Some c"
  using assms by (simp add: progress_roundtrip contract_roundtrip)

theorem C9_round_trip_witness:
  "lib_ok lib0
   \<and> ParsingProgress_from_dict lib0
       (ParsingProgress_to_dict lib0
          \<lparr>contract_address = ''0xABC'', current_page = 5, total_pages = None,
           last_processed_at = 3, status = IN_PROGRESS, error_message = Some ''timeout''\<rparr>)
     = Inr \<lparr>contract_address = ''0xABC'', current_page = 5, total_pages = None,
            last_processed_at = 3, status = IN_PROGRESS, error_message = Some ''timeout''\<rparr>
   \<and> ProcessedContract_from_dict lib0 7
       (ProcessedContract_to_dict lib0
          \<lparr>c_address = ''0xABC'', c_chain = ''ethereum'', c_processed_at = 2, holders_count = 1,
           holders = [\<lparr>address = ''0x1'', balance = ''0'', processed = True, processed_at = Some 1\<rparr>],
           c_status = COMPLETED\<rparr>)
     = Some \<lparr>c_address = ''0xABC'', c_chain = ''ethereum'', c_processed_at = 2, holders_count = 1,
             holders = [\<lparr>address = ''0x1'', balance = ''0'', processed = True, processed_at = Some 1\<rparr>],
             c_status = COMPLETED\<rparr>"
  using C9_round_trip [OF lib0_ok] lib0_ok by simp

section \<open>save\_processed\_contract\<close>

lemma update_contracts_none:
  "other_records (arg_address c) cs \<Longrightarrow> update_contracts lib now c cs = Inr None"
  by (induction cs) (auto simp: other_records_def split: sum.splits)

lemma update_contracts_split:
  "other_records (arg_address c) pre \<Longrightarrow> dict_get e ''address'' = Inr (Some (JStr (arg_address c))) \<Longrightarrow>
   update_contracts lib now c (pre @ e # post) = Inr (Some (pre @ merged_entry lib now c e # post))"
  by (induction pre) (auto simp: other_records_def split: sum.splits)

lemma find_contract_split:
  "other_records addr pre \<Longrightarrow> dict_get e ''address'' = Inr (Some (JStr addr)) \<Longrightarrow>
   find_contract lib now addr (pre @ e # post) = ProcessedContract_from_dict lib now e"
  by (induction pre) (auto simp: other_records_def split: sum.splits)

lemma swallow_simps [simp]: "fst (swallow r) = None" "snd (swallow r) = snd r"
  by (simp_all add: swallow_def)

lemma then_do_simps [simp]:
  "then_do (None, s) f = f s" "then_do (Some e, s) f = (Some e, s)"
  by (simp_all add: then_do_def)

lemma save_json_Works [simp]: "save_json Works path x db = (None, write_file path (Some x) db)"
  by (simp add: save_json_def swallow_def)

lemma save_json_returns [simp]: "fst (save_json dsk path x db) = None"
  by (simp add: save_json_def)

lemma stored_contracts_save_other [simp]:
  "stored_contracts (snd (save_json dsk parsing_progress_file x db)) = stored_contracts db"
  by (cases dsk) (simp_all add: save_json_def stored_contracts_def load_json_def)

lemma remove_parsing_progress_returns [simp]: "fst (remove_parsing_progress dsk db a) = None"
  by (simp add: remove_parsing_progress_def)

lemma stored_contracts_remove [simp]:
  "stored_contracts (snd (remove_parsing_progress dsk db a)) = stored_contracts db"
  by (simp add: remove_parsing_progress_def Let_def split: option.split json.split)

lemma stored_contracts_save [simp]:
  "stored_contracts (db\<lparr>processed_contracts := Some (JObj [(''contracts'', v)])\<rparr>) = v"
  by (simp add: stored_contracts_def load_json_def)

lemma remove_pair:
  "stored_contracts db = v \<Longrightarrow>
   \<exists>db'. remove_parsing_progress dsk db a = (None, db') \<and> stored_contracts db' = v"
  using stored_contracts_remove [of dsk db a] remove_parsing_progress_returns [of dsk db a]
  by (cases "remove_parsing_progress dsk db a") simp

lemma save_no_record:
  "stored_contracts db = JList cs \<Longrightarrow> other_records (arg_address c) cs \<Longrightarrow>
   \<exists>db'. save_processed_contract Works lib now db c = (None, db')
       \<and> stored_contracts db' = JList (cs @ [arg_to_dict lib c])"
  by (auto simp: save_processed_contract_def update_contracts_none Let_def intro!: remove_pair)

lemma save_record:
  "stored_contracts db = JList (pre @ e # post) \<Longrightarrow> other_records (arg_address c) pre \<Longrightarrow>
   dict_get e ''address'' = Inr (Some (JStr (arg_address c))) \<Longrightarrow>
   \<exists>db'. save_processed_contract Works lib now db c = (None, db')
       \<and> stored_contracts db' = JList (pre @ merged_entry lib now c e # post)"
  by (auto simp: save_processed_contract_def update_contracts_split Let_def intro!: remove_pair)

lemma get_record:
  "stored_contracts db = JList (pre @ e # post) \<Longrightarrow> other_records addr pre \<Longrightarrow>
   dict_get e ''address'' = Inr (Some (JStr addr)) \<Longrightarrow>
   get_processed_contract lib now db addr = ProcessedContract_from_dict lib now e"
  by (simp add: get_processed_contract_def find_contract_split)

lemma arg_to_dict_address [simp]:
  "dict_get (arg_to_dict lib c) ''address'' = Inr (Some (JStr (arg_address c)))"
  by (cases c) (simp_all add: ProcessedContract_to_dict_def contract_dict_def)

lemma contract_dict_address [simp]:
  "dict_get (contract_dict lib a ch t n hs st) ''address'' = Inr (Some (JStr a))"
  by (simp add: contract_dict_def)

lemma iso0_0 [simp]: "iso0 0 = ''+''"
  by (simp add: iso0_def)

text \<open>
  Claim C10. When the stored record of the contract's address (the first record with
  that address) does not deserialize, \<^verbatim>\<open>save_processed_contract\<close> puts the incoming
  record's dictionary in its place, unmerged: what is read back afterwards is the
  incoming record alone, and no holder of the old record is left.
\<close>

theorem C10_undeserializable_replaced:
  assumes "stored_contracts db = JList (pre @ e # post)"
    and "other_records (arg_address c) pre"
    and "dict_get e ''address'' = Inr (Some (JStr (arg_address c)))"
    and "ProcessedContract_from_dict lib now e = None"
  shows "\<exists>db'. save_processed_contract Works lib now db c = (None, db')
           \<and> stored_contracts db' = JList (pre @ arg_to_dict lib c # post)
           \<and> get_processed_contract lib now' db' (arg_address c)
               = ProcessedContract_from_dict lib now' (arg_to_dict lib c)"
proof -
  from save_record [OF assms(1-3)] obtain db' where
    s: "save_processed_contract Works lib now db c = (None, db')"
    and t: "stored_contracts db' = JList (pre @ merged_entry lib now c e # post)"
    by blast
  have m: "merged_entry lib now c e = arg_to_dict lib c"
    using assms(4) by (simp add: merged_entry_def)
  from t m have t': "stored_contracts db' = JList (pre @ arg_to_dict lib c # post)" by simp
  have "get_processed_contract lib now' db' (arg_address c)
          = ProcessedContract_from_dict lib now' (arg_to_dict lib c)"
    by (rule get_record [OF t' assms(2)]) simp
  with s t' show ?thesis by blast
qed

theorem C10_undeserializable_replaced_witness:
  "stored_contracts bogus_db = JList ([] @ bogus_entry # [])
   \<and> other_records (arg_address (DbContract record2)) []
   \<and> dict_get bogus_entry ''address'' = Inr (Some (JStr (arg_address (DbContract record2))))
   \<and> ProcessedContract_from_dict lib0 5 bogus_entry = None
   \<and> (\<exists>db'. save_processed_contract Works lib0 5 bogus_db (DbContract record2) = (None, db')
           \<and> stored_contracts db' = JList ([] @ arg_to_dict lib0 (DbContract record2) # [])
           \<and> get_processed_contract lib0 6 db' (arg_address (DbContract record2)) = Some record2)"
proof -
  have h1: "stored_contracts bogus_db = JList ([] @ bogus_entry # [])"
    by (simp add: bogus_db_def stored_contracts_def load_json_def)
  have h2: "other_records (arg_address (DbContract record2)) []"
    by (simp add: other_records_def)
  have h3: "dict_get bogus_entry ''address'' = Inr (Some (JStr (arg_address (DbContract record2))))"
    by (simp add: bogus_entry_def record2_def)
  have h4: "ProcessedContract_from_dict lib0 5 bogus_entry = None"
    by (simp add: ProcessedContract_from_dict_def bogus_entry_def dict_get_default_def
          TokenHolder_from_dict_def ParsingStatus_of_def caught_def)
  from C10_undeserializable_replaced [OF h1 h2 h3 h4, of 6] h1 h2 h3 h4 show ?thesis
    by (simp add: contract_roundtrip [OF lib0_ok])
qed

lemma known_status_parses:
  "known_status s \<Longrightarrow> \<exists>t. ParsingStatus_of (JStr (status_obj_value s)) = Inr t"
  by (simp add: known_status_def ParsingStatus_of_def split: if_splits)

lemma arg_to_dict_as_contract_dict:
  "arg_to_dict lib c = contract_dict lib (arg_address c) (arg_chain c)
      (case c of DbContract d \<Rightarrow> c_processed_at d | ModelsContract m \<Rightarrow> mc_processed_at m)
      (arg_holders_count c) (map (holder_to_dict lib) (arg_holders c)) (status_obj_value (arg_status c))"
  by (cases c) (simp_all add: ProcessedContract_to_dict_def comp_def)

lemma as_db_address [simp]: "address (as_db h) = holder_address h"
  by (cases h) (simp_all add: as_db_def)

lemma as_db_DbHolder [simp]: "as_db (DbHolder d) = d"
  by (simp add: as_db_def)

lemma save_step_insert:
  assumes ok: "lib_ok lib" and dist: "distinct (map holder_address (arg_holders c))"
    and st: "known_status (arg_status c)"
    and cnt: "arg_holders_count c = int (length (arg_holders c))"
    and cs: "stored_contracts db = JList cs" "other_records (arg_address c) cs"
  shows "\<exists>db'. save_processed_contract Works lib now db c = (None, db') \<and> stored_good lib db' (arg_address c)"
proof -
  from save_no_record [OF cs] obtain db' where
    s: "save_processed_contract Works lib now db c = (None, db')"
    and t: "stored_contracts db' = JList (cs @ arg_to_dict lib c # [])"
    by auto
  from known_status_parses [OF st] obtain sv where
    sv: "ParsingStatus_of (JStr (status_obj_value (arg_status c))) = Inr sv" by blast
  define pc where "pc = \<lparr>c_address = arg_address c, c_chain = arg_chain c,
      c_processed_at = (case c of DbContract d \<Rightarrow> c_processed_at d | ModelsContract m \<Rightarrow> mc_processed_at m),
      holders_count = arg_holders_count c, holders = map as_db (arg_holders c), c_status = sv\<rparr>"
  have fd: "\<forall>n. ProcessedContract_from_dict lib n (arg_to_dict lib c) = Some pc"
    unfolding pc_def
    by (subst arg_to_dict_as_contract_dict) (simp add: contract_dict_from_dict [OF ok sv])
  have good: "deduplicated pc"
    using dist cnt by (simp add: deduplicated_def pc_def comp_def)
  have "stored_good lib db' (arg_address c)"
    unfolding stored_good_def using t cs(2) fd good arg_to_dict_address by blast
  with s show ?thesis by blast
qed

lemma distinct_merge:
  "distinct (map address ex) \<Longrightarrow> distinct (map holder_address hs) \<Longrightarrow>
   distinct (map address ex @ map holder_address (filter (\<lambda>h. holder_address h \<notin> set (map address ex)) hs))"
  by (auto simp: distinct_map_filter intro: rev_image_eqI)

lemma save_step_merge:
  assumes ok: "lib_ok lib" and dist: "distinct (map holder_address (arg_holders c))"
    and st: "known_status (arg_status c)"
    and inv: "stored_good lib db (arg_address c)"
  shows "\<exists>db'. save_processed_contract Works lib now db c = (None, db') \<and> stored_good lib db' (arg_address c)"
proof -
  from inv obtain pre e post ex where
    cs: "stored_contracts db = JList (pre @ e # post)" and oth: "other_records (arg_address c) pre"
    and ad: "dict_get e ''address'' = Inr (Some (JStr (arg_address c)))"
    and fd: "\<forall>n. ProcessedContract_from_dict lib n e = Some ex" and good: "deduplicated ex"
    unfolding stored_good_def by blast
  from save_record [OF cs oth ad] obtain db' where
    s: "save_processed_contract Works lib now db c = (None, db')"
    and t: "stored_contracts db' = JList (pre @ merged_entry lib now c e # post)"
    by blast
  from known_status_parses [OF st] obtain sv where
    sv: "ParsingStatus_of (JStr (status_obj_value (arg_status c))) = Inr sv" by blast
  define news where "news = filter (\<lambda>h. holder_address h \<notin> set (map address (holders ex))) (arg_holders c)"
  define alls where "alls = map DbHolder (holders ex) @ news"
  define pc where "pc = \<lparr>c_address = arg_address c, c_chain = arg_chain c, c_processed_at = now,
      holders_count = int (length alls), holders = map as_db alls, c_status = sv\<rparr>"
  have m: "merged_entry lib now c e = contract_dict lib (arg_address c) (arg_chain c) now
             (int (length alls)) (map (holder_to_dict lib) alls) (status_obj_value (arg_status c))"
    using fd by (simp add: merged_entry_def Let_def alls_def news_def)
  have fd': "\<forall>n. ProcessedContract_from_dict lib n (merged_entry lib now c e) = Some pc"
    unfolding m pc_def by (simp add: contract_dict_from_dict [OF ok sv])
  have "map address (map as_db alls) = map address (holders ex) @ map holder_address news"
    by (simp add: alls_def comp_def)
  moreover have "distinct (map address (holders ex) @ map holder_address news)"
    unfolding news_def using good dist by (intro distinct_merge) (simp_all add: deduplicated_def)
  ultimately have good': "deduplicated pc"
    by (simp add: deduplicated_def pc_def)
  have ad': "dict_get (merged_entry lib now c e) ''address'' = Inr (Some (JStr (arg_address c)))"
    unfolding m by simp
  have "stored_good lib db' (arg_address c)"
    unfolding stored_good_def using t oth fd' good' ad' by blast
  with s show ?thesis by blast
qed

lemma save_all_good:
  assumes ok: "lib_ok lib"
  shows "stored_good lib db addr \<Longrightarrow>
    \<forall>x \<in> set calls. arg_address (snd x) = addr \<and> distinct (map holder_address (arg_holders (snd x)))
       \<and> known_status (arg_status (snd x)) \<Longrightarrow>
    \<exists>db'. save_all Works lib db calls = (None, db') \<and> stored_good lib db' addr"
proof (induction calls arbitrary: db)
  case Nil
  then show ?case by simp
next
  case (Cons x xs)
  from Cons.prems have a: "arg_address (snd x) = addr"
    and d: "distinct (map holder_address (arg_holders (snd x)))"
    and k: "known_status (arg_status (snd x))" by simp_all
  from save_step_merge [OF ok d k, of db "fst x"] Cons.prems(1) a obtain db1 where
    s1: "save_processed_contract Works lib (fst x) db (snd x) = (None, db1)" and g1: "stored_good lib db1 addr"
    by auto
  from Cons.IH [OF g1] Cons.prems(2) obtain db' where
    "save_all Works lib db1 xs = (None, db')" "stored_good lib db' addr" by auto
  with s1 show ?case by simp
qed

lemma stored_good_get:
  "stored_good lib db addr \<Longrightarrow> \<exists>c. get_processed_contract lib now db addr = Some c \<and> deduplicated c"
  unfolding stored_good_def using get_record by metis

text \<open>
  Claim C2, as stated, fails: the first call for an address appends the incoming record
  as it is. A record with the holder \<open>0x1\<close> twice and \<^verbatim>\<open>holders_count\<close> 7, saved to
  the empty store, is read back with both entries and the count 7.
\<close>

theorem C2_dedup_counterexample:
  "save_all Works lib0 initial_db [(0, DbContract dup_record)]
     = (None, initial_db\<lparr>processed_contracts :=
              Some (JObj [(''contracts'', JList [ProcessedContract_to_dict lib0 dup_record])])\<rparr>)
   \<and> get_processed_contract lib0 0
        (initial_db\<lparr>processed_contracts :=
              Some (JObj [(''contracts'', JList [ProcessedContract_to_dict lib0 dup_record])])\<rparr>) ''0xA''
      = Some dup_record
   \<and> map address (holders dup_record) = [''0x1'', ''0x1'']
   \<and> holders_count dup_record = 7 \<and> length (holders dup_record) = 2"
proof -
  have a: "save_all Works lib0 initial_db [(0, DbContract dup_record)]
     = (None, initial_db\<lparr>processed_contracts :=
              Some (JObj [(''contracts'', JList [ProcessedContract_to_dict lib0 dup_record])])\<rparr>)"
    by (simp add: save_processed_contract_def stored_contracts_def load_json_def initial_db_def
          dup_record_def Let_def)
  have b: "get_processed_contract lib0 0
        (initial_db\<lparr>processed_contracts :=
              Some (JObj [(''contracts'', JList [ProcessedContract_to_dict lib0 dup_record])])\<rparr>) ''0xA''
      = Some dup_record"
    using arg_to_dict_address [of lib0 "DbContract dup_record"]
    by (simp add: get_processed_contract_def stored_contracts_def load_json_def
          contract_roundtrip [OF lib0_ok] dup_record_def)
  show ?thesis using a b by (simp add: dup_record_def holder1_def)
qed

text \<open>
  Claim C2, amended. From a store with no record of the address, after any non-empty
  sequence of calls for that address in which every incoming holder list has pairwise
  distinct addresses and the first record's \<^verbatim>\<open>holders_count\<close> is the length of its
  list (each status one that db\_manager.py can read back), the stored record has
  pairwise distinct holder addresses and a \<^verbatim>\<open>holders_count\<close> equal to their number.
\<close>

theorem C2_dedup_amended:
  assumes "lib_ok lib"
    and "stored_contracts db = JList cs" and "other_records addr cs"
    and "calls \<noteq> []"
    and "\<forall>x \<in> set calls. arg_address (snd x) = addr
            \<and> distinct (map holder_address (arg_holders (snd x)))
            \<and> known_status (arg_status (snd x))"
    and "arg_holders_count (snd (hd calls)) = int (length (arg_holders (snd (hd calls))))"
  shows "\<exists>db' c. save_all Works lib db calls = (None, db')
           \<and> get_processed_contract lib now db' addr = Some c \<and> deduplicated c"
proof -
  from assms(4) obtain x xs where calls: "calls = x # xs" by (cases calls) auto
  from assms(5) calls have a: "arg_address (snd x) = addr"
    and d: "distinct (map holder_address (arg_holders (snd x)))"
    and k: "known_status (arg_status (snd x))" by simp_all
  from assms(6) calls have n: "arg_holders_count (snd x) = int (length (arg_holders (snd x)))" by simp
  from save_step_insert [OF assms(1) d k n, of db cs "fst x"] assms(2,3) a obtain db1 where
    s1: "save_processed_contract Works lib (fst x) db (snd x) = (None, db1)" and g1: "stored_good lib db1 addr"
    by auto
  from save_all_good [OF assms(1) g1, of xs] assms(5) calls obtain db' where
    s2: "save_all Works lib db1 xs = (None, db')" and g2: "stored_good lib db' addr" by auto
  from stored_good_get [OF g2, of now] obtain c where
    "get_processed_contract lib now db' addr = Some c" "deduplicated c" by blast
  with s1 s2 calls show ?thesis by simp
qed

theorem C2_dedup_amended_witness:
  "lib_ok lib0 \<and> stored_contracts initial_db = JList [] \<and> other_records ''0xA'' []
   \<and> [(0, DbContract record1), (1, ModelsContract m_record12)] \<noteq> []
   \<and> list_all (\<lambda>x. arg_address (snd x) = ''0xA''
            \<and> distinct (map holder_address (arg_holders (snd x)))
            \<and> known_status (arg_status (snd x))) [(0, DbContract record1), (1, ModelsContract m_record12)]
   \<and> arg_holders_count (DbContract record1) = int (length (arg_holders (DbContract record1)))
   \<and> (\<exists>db' c. save_all Works lib0 initial_db [(0, DbContract record1), (1, ModelsContract m_record12)] = (None, db')
           \<and> get_processed_contract lib0 9 db' ''0xA'' = Some c \<and> deduplicated c)"
proof -
  have h2: "stored_contracts initial_db = JList []"
    by (simp add: stored_contracts_def load_json_def initial_db_def)
  have h3: "other_records ''0xA'' []" by (simp add: other_records_def)
  have h4: "[(0::int, DbContract record1), (1, ModelsContract m_record12)] \<noteq> []" by simp
  have h5: "\<forall>x \<in> set [(0::int, DbContract record1), (1, ModelsContract m_record12)].
       arg_address (snd x) = ''0xA'' \<and> distinct (map holder_address (arg_holders (snd x)))
       \<and> known_status (arg_status (snd x))"
    by (simp add: record1_def m_record12_def holder1_def known_status_def ParsingStatus_of_def)
  have h6: "arg_holders_count (snd (hd [(0::int, DbContract record1), (1, ModelsContract m_record12)]))
     = int (length (arg_holders (snd (hd [(0::int, DbContract record1), (1, ModelsContract m_record12)]))))"
    by (simp add: record1_def)
  from C2_dedup_amended [OF lib0_ok h2 h3 h4 h5 h6, of 9] lib0_ok h2 h3 h5 h6 show ?thesis
    by simp
qed


section \<open>The proxy pool\<close>

lemma failures_20:
  "failures Works 0 ''http://p'' 20 pool1 =
     (None, \<lparr>proxies = [(''http://p'',
                \<lparr>url = ''http://p'', is_working = False, fails_count = 20, last_used = 0,
                 cooldown_until = Some 120, requests_count = 0\<rparr>)],
             current_proxy_index = 0,
             data_file = Some [(''http://p'',
                \<lparr>url = ''http://p'', is_working = False, fails_count = 20, last_used = 0,
                 cooldown_until = Some 120, requests_count = 0\<rparr>)]\<rparr>)"
  by (simp add: eval_nat_numeral pool1_def new_status_def handle_proxy_error_def set_cooldown_def
        MAX_FAILS_def COOLDOWN_TIME_def Let_def)

text \<open>
  Claim C7 fails on the code. After \<open>MAX_FAILS\<close> = 20 failures in a row (the 19th still
  leaves the proxy selectable) the entry has \<^verbatim>\<open>is_working = False\<close>, its fail count 20
  and a cooldown until 120. \<^verbatim>\<open>_get_next_available_proxy\<close> skips an entry that is not
  working before it looks at the cooldown, and nothing sets \<^verbatim>\<open>is_working\<close> again: at
  time 121, and at every other time, the pool yields no proxy.
\<close>

theorem C7_failed_proxy_stays_ineligible:
  "fst (failures Works 0 ''http://p'' 19 pool1) = None
   \<and> fst (get_next_available_proxy Works 1 (snd (failures Works 0 ''http://p'' 19 pool1))) = Inr (Some ''http://p'')
   \<and> fst (failures Works 0 ''http://p'' 20 pool1) = None
   \<and> map_of (proxies (snd (failures Works 0 ''http://p'' 20 pool1))) ''http://p''
       = Some \<lparr>url = ''http://p'', is_working = False, fails_count = 20, last_used = 0,
               cooldown_until = Some 120, requests_count = 0\<rparr>
   \<and> fst (get_next_available_proxy Works 121 (snd (failures Works 0 ''http://p'' 20 pool1))) = Inr None
   \<and> (\<forall>now. fst (get_next_available_proxy Works now (snd (failures Works 0 ''http://p'' 20 pool1))) = Inr None)"
  by (simp add: failures_20 get_next_available_proxy_def)
     (simp add: eval_nat_numeral pool1_def new_status_def handle_proxy_error_def set_cooldown_def
        MAX_FAILS_def COOLDOWN_TIME_def Let_def get_next_available_proxy_def MAX_REQUESTS_PER_PROXY_def)


section \<open>A write that fails\<close>

lemma write_json_fails: "dsk \<noteq> Works \<Longrightarrow> fst (write_json dsk path x db) = Some OSError"
  by (cases dsk) simp_all

lemma save_proxy_data_raises: "dsk \<noteq> Works \<Longrightarrow> fst (save_proxy_data dsk pm) = Some OSError"
  by (cases dsk) simp_all

lemma save_processed_contract_raise_any_disk:
  "fst (save_processed_contract dsk lib now db c) = fst (save_processed_contract Works lib now db c)"
  by (simp add: save_processed_contract_def Let_def then_do_def
      split: json.split sum.split option.split)

text \<open>
  Claim C8, as stated, fails twice with the disk refusing \<^verbatim>\<open>open(path, 'w')\<close>:
  \<^verbatim>\<open>save_processed_contract\<close> returns without an exception, the store as it was
  (\<^verbatim>\<open>_save_json\<close> has caught the error), and \<^verbatim>\<open>_save_proxy_data\<close> raises.
\<close>

theorem C8_write_failure_counterexample:
  "fst (write_json OpenFails processed_contracts_file
          (JObj [(''contracts'', JList [ProcessedContract_to_dict lib0 record1])]) initial_db) = Some OSError
   \<and> save_processed_contract OpenFails lib0 0 initial_db (DbContract record1) = (None, initial_db)
   \<and> save_proxy_data OpenFails pool1 = (Some OSError, pool1)"
  by (simp add: save_processed_contract_def stored_contracts_def load_json_def initial_db_def
        save_json_def swallow_def record1_def Let_def)


text \<open>
  Claim C8, amended. When the write of a checkpoint file fails with an I/O error,
  \<^verbatim>\<open>save_parsing_progress\<close> returns without raising, and \<^verbatim>\<open>_save_proxy_data\<close> raises
  the error to its caller.
\<close>

theorem C8_write_failure_amended:
  assumes "dsk \<noteq> Works"
  shows "fst (write_json dsk parsing_progress_file x db) = Some OSError
       \<and> fst (save_parsing_progress dsk lib db p) = None
       \<and> fst (save_proxy_data dsk pm) = Some OSError"
  using assms by (simp add: write_json_fails save_proxy_data_raises save_parsing_progress_def)

theorem C8_write_failure_amended_witness:
  "OpenFails \<noteq> Works
   \<and> fst (write_json OpenFails parsing_progress_file (JObj []) initial_db) = Some OSError
   \<and> fst (save_parsing_progress OpenFails lib0 initial_db
            (DbProgress \<lparr>contract_address = ''0xA'', current_page = 1, total_pages = None,
               last_processed_at = 0, status = IN_PROGRESS, error_message = None\<rparr>)) = None
   \<and> fst (save_proxy_data OpenFails pool1) = Some OSError"
  using C8_write_failure_amended [of OpenFails "JObj []" initial_db lib0 _ pool1] by simp


section \<open>The request under the proxy wrapper\<close>

lemma next_proxy_key:
  "next_proxy dsk now n pm = (Inr (Some u), pm1) \<Longrightarrow> u \<in> fst ` set (proxies pm1)"
proof (induction n arbitrary: pm)
  case 0
  then show ?case by simp
next
  case (Suc n)
  let ?i = "(current_proxy_index pm + 1) mod length (proxies pm)"
  let ?pm1 = "pm\<lparr>current_proxy_index := ?i\<rparr>"
  from Suc.prems have ne: "proxies pm \<noteq> []" by (auto split: if_splits)
  then have il: "?i < length (proxies pm)" by simp
  then have mem: "fst (proxies pm ! ?i) \<in> fst ` set (proxies ?pm1)" by simp
  show ?case
  proof (cases "next_proxy dsk now n ?pm1 = (Inr (Some u), pm1)")
    case True
    from Suc.IH [OF True] show ?thesis .
  next
    case False
    note F = False
    show ?thesis
    proof (cases "set_cooldown dsk now (fst (proxies pm ! ?i)) ?pm1")
      case (Pair e pm2)
      show ?thesis
      proof (cases "e = None \<and> next_proxy dsk now n pm2 = (Inr (Some u), pm1)")
        case True
        then show ?thesis using Suc.IH [of pm2] by simp
      next
        case False
        with F Pair Suc.prems ne have "u = fst (proxies pm ! ?i)" "pm1 = ?pm1"
          by (auto simp: Let_def split: if_splits option.splits)
        with mem show ?thesis by simp
      qed
    qed
  qed
qed

lemma handle_proxy_success_works:
  "u \<in> fst ` set (proxies pm) \<Longrightarrow> \<exists>pm'. handle_proxy_success Works now u pm = (None, pm')"
  by (cases "map_of (proxies pm) u") (auto simp: handle_proxy_success_def map_of_eq_None_iff)

lemma make_async_request_pm [simp]:
  "proxy_manager (snd (make_async_request w c page sv)) = proxy_manager sv"
  by (simp add: make_async_request_def Let_def split: http_outcome.split)

lemma with_proxy_works:
  assumes "the_disk w = Works"
    and "fst (get_next_available_proxy Works (timer w) (proxy_manager sv)) = Inr (Some u)"
  shows "\<exists>pm1 pm2. with_proxy w c page sv =
           (Inr (fst (make_async_request w c page (sv\<lparr>proxy_manager := pm1\<rparr>))),
            (snd (make_async_request w c page (sv\<lparr>proxy_manager := pm1\<rparr>)))\<lparr>proxy_manager := pm2\<rparr>)"
proof -
  obtain pm1 where g: "get_next_available_proxy Works (timer w) (proxy_manager sv) = (Inr (Some u), pm1)"
    using assms(2) by (cases "get_next_available_proxy Works (timer w) (proxy_manager sv)") auto
  then have "u \<in> fst ` set (proxies pm1)"
    unfolding get_next_available_proxy_def by (rule next_proxy_key)
  from handle_proxy_success_works [OF this] obtain pm2 where
    h: "handle_proxy_success Works (timer w) u pm1 = (None, pm2)" by blast
  show ?thesis
    using g h assms(1) by (auto simp: with_proxy_def Let_def)
qed


lemma make_async_request_reply:
  assumes "chain_id c = Some cid" "cid \<noteq> []" "api_keys (api_key_manager sv) \<noteq> []"
    and "list_all (\<lambda>k. k \<noteq> []) (api_keys (api_key_manager sv))"
    and "upstream w (length (requests sv)) page = HttpReply st b"
  shows "fst (make_async_request w c page sv) = Some (from_response st b)"
    and "requests (snd (make_async_request w c page sv)) = requests sv @ [page]"
    and "db_manager (snd (make_async_request w c page sv)) = db_manager sv"
proof -
  let ?ks = "api_keys (api_key_manager sv)"
  have "key_cycle (api_key_manager sv) mod length ?ks < length ?ks" using assms(3) by simp
  then have "?ks ! (key_cycle (api_key_manager sv) mod length ?ks) \<in> set ?ks" by (rule nth_mem)
  with assms(4) have k: "?ks ! (key_cycle (api_key_manager sv) mod length ?ks) \<noteq> []"
    by (simp add: list_all_iff)
  show "fst (make_async_request w c page sv) = Some (from_response st b)"
    and "requests (snd (make_async_request w c page sv)) = requests sv @ [page]"
    and "db_manager (snd (make_async_request w c page sv)) = db_manager sv"
    using assms k by (simp_all add: make_async_request_def get_next_key_def Let_def)
qed

section \<open>Progress records written and read back\<close>

lemma on_db_simps [simp]:
  "fst (on_db f sv) = fst (f (db_manager sv))"
  "db_manager (snd (on_db f sv)) = snd (f (db_manager sv))"
  "requests (snd (on_db f sv)) = requests sv"
  by (simp_all add: on_db_def split: prod.split)

lemma load_json_progress_written [simp]:
  "load_json (db\<lparr>parsing_progress := Some (JObj kvs)\<rparr>) parsing_progress_file = kvs"
  by (simp add: load_json_def)

lemma save_progress_table:
  assumes "progress_table db = Some pr"
  shows "snd (save_parsing_progress Works lib db p) =
           db\<lparr>parsing_progress := Some (JObj (AList.update ''progress''
               (JObj (AList.update (progress_address p) (progress_to_dict lib p) pr))
               (load_json db parsing_progress_file)))\<rparr>"
  using assms
  by (simp add: progress_table_def save_parsing_progress_def Let_def
      split: option.splits json.splits)

lemma progress_to_dict_truthy [simp]: "truthy (progress_to_dict lib p)"
  by (cases p) (simp_all add: ParsingProgress_to_dict_def progress_dict_def)

lemma get_after_save:
  assumes "progress_table db = Some pr"
  shows "get_parsing_progress lib (snd (save_parsing_progress Works lib db p)) (progress_address p)
           = caught (ParsingProgress_from_dict lib (progress_to_dict lib p))"
  by (simp add: save_progress_table [OF assms] get_parsing_progress_def update_conv')

lemma models_progress_read_back:
  assumes "lib_ok lib" "ParsingStatus_of (JStr (m_status_value (mp_status m))) = Inr s"
  shows "caught (ParsingProgress_from_dict lib (progress_to_dict lib (ModelsProgress m)))
     = Some \<lparr>contract_address = mp_contract_address m, current_page = mp_current_page m,
             total_pages = mp_total_pages m, last_processed_at = mp_last_processed_at m,
             status = s, error_message = mp_error_message m\<rparr>"
  using assms
  by (cases "mp_total_pages m"; cases "mp_error_message m")
     (simp_all add: lib_ok_def ParsingProgress_from_dict_def progress_dict_def opt_int_def
        opt_str_def caught_def)

lemma ts_failed_progress:
  assumes "lib_ok lib" "the_disk w = Works" "progress_table (db_manager sv) = Some pr"
  shows "get_parsing_progress lib
           (db_manager (snd (ts_save_progress w lib addr page None M_FAILED msg sv))) addr
         = Some \<lparr>contract_address = addr, current_page = page, total_pages = None,
                 last_processed_at = clock w, status = FAILED, error_message = msg\<rparr>"
proof -
  let ?m = "\<lparr>mp_contract_address = addr, mp_current_page = page, mp_total_pages = None,
            mp_last_processed_at = clock w, mp_status = M_FAILED, mp_error_message = msg\<rparr>"
  have s: "ParsingStatus_of (JStr (m_status_value (mp_status ?m))) = Inr FAILED"
    by (simp add: ParsingStatus_of_def)
  from get_after_save [OF assms(3), of lib "ModelsProgress ?m"]
       models_progress_read_back [OF assms(1) s]
  show ?thesis using assms(2) by (simp add: ts_save_progress_def)
qed

lemma ts_save_progress_keeps [simp]:
  "requests (snd (ts_save_progress w lib addr page tot st msg sv)) = requests sv"
  "stored_contracts (db_manager (snd (ts_save_progress w lib addr page tot st msg sv)))
     = stored_contracts (db_manager sv)"
  by (simp_all add: ts_save_progress_def save_parsing_progress_def Let_def
      split: option.split json.split)

lemma find_then_update:
  "find_contract lib now addr cs = Some pc \<Longrightarrow> arg_address c = addr \<Longrightarrow>
   \<exists>r. update_contracts lib now' c cs = Inr (Some r)"
proof (induction cs)
  case Nil
  then show ?case by simp
next
  case (Cons e es)
  show ?case
  proof (cases "dict_get e ''address''")
    case (Inl x)
    with Cons.prems show ?thesis by simp
  next
    case (Inr a)
    show ?thesis
    proof (cases "a = Some (JStr addr)")
      case True
      with Inr Cons.prems show ?thesis by simp
    next
      case False
      with Inr Cons.prems have "find_contract lib now addr es = Some pc" by simp
      from Cons.IH [OF this Cons.prems(2)] obtain r where "update_contracts lib now' c es = Inr (Some r)"
        by blast
      with Inr False Cons.prems(2) show ?thesis by simp
    qed
  qed
qed

lemma get_parsing_progress_cong:
  "parsing_progress db1 = parsing_progress db2 \<Longrightarrow>
   get_parsing_progress lib db1 a = get_parsing_progress lib db2 a"
  by (simp add: get_parsing_progress_def load_json_def)

lemma save_known_contract:
  assumes "get_processed_contract lib now db (arg_address c) = Some pc"
    and "arg_status c \<noteq> DbStatus COMPLETED"
  shows "fst (save_processed_contract Works lib now' db c) = None"
    and "parsing_progress (snd (save_processed_contract Works lib now' db c)) = parsing_progress db"
proof -
  from assms(1) obtain cs where cs: "stored_contracts db = JList cs"
    and f: "find_contract lib now (arg_address c) cs = Some pc"
    by (cases "stored_contracts db") (auto simp: get_processed_contract_def)
  from find_then_update [OF f refl, of now'] obtain r where
    "update_contracts lib now' c cs = Inr (Some r)" by blast
  with cs assms(2)
  show "fst (save_processed_contract Works lib now' db c) = None"
    and "parsing_progress (snd (save_processed_contract Works lib now' db c)) = parsing_progress db"
    by (simp_all add: save_processed_contract_def)
qed


lemma find_contract_none:
  "other_records addr cs \<Longrightarrow> find_contract lib now addr cs = None"
  by (induction cs) (auto simp: other_records_def split: sum.splits)

lemma ts_loop_first_reply_fails:
  assumes "the_disk w = Works"
    and "fst (get_next_available_proxy Works (timer w) (proxy_manager sv)) = Inr (Some u)"
    and "chain_id c = Some cid" "cid \<noteq> []"
    and "api_keys (api_key_manager sv) \<noteq> []"
    and "list_all (\<lambda>k. k \<noteq> []) (api_keys (api_key_manager sv))"
    and "upstream w (length (requests sv)) page = HttpReply st b"
    and "\<not> (200 \<le> st \<and> st < 300)"
  shows "\<exists>sv1. ts_loop w lib c ex (Suc fuel) page hs sv =
           Some (Inr hs, snd (ts_save_progress w lib (k_address c) page None M_FAILED
                                (get_default (b_message b) []) sv1))
         \<and> requests sv1 = requests sv @ [page] \<and> db_manager sv1 = db_manager sv"
proof -
  from with_proxy_works [OF assms(1,2), of c page] obtain pm1 pm2 where
    wp: "with_proxy w c page sv =
           (Inr (fst (make_async_request w c page (sv\<lparr>proxy_manager := pm1\<rparr>))),
            (snd (make_async_request w c page (sv\<lparr>proxy_manager := pm1\<rparr>)))\<lparr>proxy_manager := pm2\<rparr>)"
    by blast
  let ?sv = "sv\<lparr>proxy_manager := pm1\<rparr>"
  have m: "fst (make_async_request w c page ?sv) = Some (from_response st b)"
    "requests (snd (make_async_request w c page ?sv)) = requests sv @ [page]"
    "db_manager (snd (make_async_request w c page ?sv)) = db_manager sv"
    using make_async_request_reply [of c cid ?sv w page st b] assms(3-7) by simp_all
  have f: "failed (Some (from_response st b))"
    using assms(8) by (auto simp: failed_def is_success_def from_response_def)
  have e: "error_msg (Some (from_response st b)) = get_default (b_message b) []"
    using assms(8) by (auto simp: error_msg_def from_response_def)
  show ?thesis
    by (rule exI [of _ "(snd (make_async_request w c page ?sv))\<lparr>proxy_manager := pm2\<rparr>"])
       (simp add: wp m f e)
qed

lemma pool1_gives: "fst (get_next_available_proxy Works 0 pool1) = Inr (Some ''http://p'')"
  by (simp add: get_next_available_proxy_def pool1_def new_status_def MAX_REQUESTS_PER_PROXY_def)

lemma chain_ethereum: "chain_id contract0 = Some ''1''"
  by code_simp


lemma initial_table: "progress_table initial_db = Some []"
  by (simp add: progress_table_def load_json_def initial_db_def)

section \<open>The engine of token\_holders\_service.py, and that of get\_holders.py\<close>

text \<open>
  Claim C1 fails on token\_holders\_service.py. Page 1 holds \<open>0x1\<close> and names page 2,
  and page 2 answers HTTP 500: the loop writes the \<open>FAILED\<close> progress record and
  breaks, and the statement after the loop saves the holders with
  \<^verbatim>\<open>ParsingStatus.COMPLETED\<close>, whatever ended the loop. The stored record ends
  \<open>COMPLETED\<close> after an error.
\<close>

theorem C1_service_completed_after_error:
  "observe lib0 ''0xABC'' (ts_get_holders_async (world0 second_page_fails) lib0 contract0 5 service0)
   = Some \<lparr>returned = Inr [AddressStr ''0x1''], asked = [1, 2],
       stored = Some (COMPLETED, [''0x1'']),
       progress = Some \<lparr>contract_address = ''0xABC'', current_page = 2, total_pages = None,
          last_processed_at = 0, status = FAILED, error_message = Some ''boom''\<rparr>\<rparr>"
  by code_simp

text \<open>
  On the same input the engine of get\_holders.py, which tests the last response after
  its loop, leaves the stored record \<open>IN_PROGRESS\<close>.
\<close>

lemma get_holders_in_progress_after_error:
  "observe lib0 ''0xABC'' (gh_get_holders_async (world0 second_page_fails) lib0 contract0 5 service0)
   = Some \<lparr>returned = Inr [AddressStr ''0x1''], asked = [1, 2],
       stored = Some (IN_PROGRESS, [''0x1'']),
       progress = Some \<lparr>contract_address = ''0xABC'', current_page = 2, total_pages = None,
          last_processed_at = 0, status = IN_PROGRESS, error_message = None\<rparr>\<rparr>"
  by code_simp

text \<open>
  Claim C3 fails on token\_holders\_service.py. With a stored progress record of page 5,
  \<open>IN_PROGRESS\<close>, the first (and only) page it asks for is page 1: the progress
  record read back carries a member of \<^verbatim>\<open>db_manager.ParsingStatus\<close>, the engine
  compares it with \<^verbatim>\<open>models.ParsingStatus.IN_PROGRESS\<close>, and the comparison is false.
\<close>

theorem C3_service_restarts_at_page_1:
  "get_parsing_progress lib0 (db_manager service5) ''0xABC'' = Some progress5
   \<and> observe lib0 ''0xABC'' (ts_get_holders_async (world0 single_page) lib0 contract0 5 service5)
   = Some \<lparr>returned = Inr [AddressStr ''0x1''], asked = [1],
       stored = Some (COMPLETED, [''0x1'']),
       progress = Some \<lparr>contract_address = ''0xABC'', current_page = 1, total_pages = None,
          last_processed_at = 0, status = IN_PROGRESS, error_message = None\<rparr>\<rparr>"
  by code_simp

text \<open>On the same input the engine of get\_holders.py asks for page 5.\<close>

lemma get_holders_resumes_at_page_5:
  "observe lib0 ''0xABC'' (gh_get_holders_async (world0 single_page) lib0 contract0 5 service5)
   = Some \<lparr>returned = Inr [AddressStr ''0x1''], asked = [5],
       stored = Some (COMPLETED, [''0x1'']), progress = None\<rparr>"
  by code_simp

text \<open>
  Claim C4 fails on token\_holders\_service.py. After a run that fetched the single page
  of the contract, the stored record is \<open>COMPLETED\<close> and the progress record is still
  there: \<^verbatim>\<open>save_processed_contract\<close> compares the status of the record it is given, a
  member of \<^verbatim>\<open>models.ParsingStatus\<close>, with \<^verbatim>\<open>db_manager.ParsingStatus.COMPLETED\<close>. A
  second run on the same service asks for page 1 again and returns the holder again:
  the engine compares the stored status with \<^verbatim>\<open>models.ParsingStatus.COMPLETED\<close>.
\<close>

theorem C4_service_crawls_completed_again:
  "observe lib0 ''0xABC'' (ts_get_holders_async (world0 single_page) lib0 contract0 5 service0)
   = Some \<lparr>returned = Inr [AddressStr ''0x1''], asked = [1],
       stored = Some (COMPLETED, [''0x1'']),
       progress = Some \<lparr>contract_address = ''0xABC'', current_page = 1, total_pages = None,
          last_processed_at = 0, status = IN_PROGRESS, error_message = None\<rparr>\<rparr>
   \<and> observe lib0 ''0xABC''
       (then_run (ts_get_holders_async (world0 single_page) lib0 contract0 5 service0)
          (ts_get_holders_async (world0 single_page) lib0 contract0 5))
   = Some \<lparr>returned = Inr [AddressStr ''0x1''], asked = [1, 1],
       stored = Some (COMPLETED, [''0x1'']),
       progress = Some \<lparr>contract_address = ''0xABC'', current_page = 1, total_pages = None,
          last_processed_at = 0, status = IN_PROGRESS, error_message = None\<rparr>\<rparr>"
  by code_simp

text \<open>
  The engine of get\_holders.py removes the progress record with the \<open>COMPLETED\<close>
  save, and its second run asks nothing and returns the empty list.
\<close>

lemma get_holders_skips_completed:
  "observe lib0 ''0xABC'' (gh_get_holders_async (world0 single_page) lib0 contract0 5 service0)
   = Some \<lparr>returned = Inr [AddressStr ''0x1''], asked = [1],
       stored = Some (COMPLETED, [''0x1'']), progress = None\<rparr>
   \<and> observe lib0 ''0xABC''
       (then_run (gh_get_holders_async (world0 single_page) lib0 contract0 5 service0)
          (gh_get_holders_async (world0 single_page) lib0 contract0 5))
   = Some \<lparr>returned = Inr [], asked = [1],
       stored = Some (COMPLETED, [''0x1'']), progress = None\<rparr>"
  by code_simp

text \<open>
  Claim C5, as stated, fails: when the HTTP 500 reply is a JSON object without a
  \<^verbatim>\<open>"message"\<close>, the error message recorded is the empty string.
\<close>

theorem C5_empty_message_counterexample:
  "observe lib0 ''0xABC'' (ts_get_holders_async (world0 (always_500 empty_body)) lib0 contract0 5 service0)
   = Some \<lparr>returned = Inr [], asked = [1], stored = None,
       progress = Some \<lparr>contract_address = ''0xABC'', current_page = 1, total_pages = None,
          last_processed_at = 0, status = FAILED, error_message = Some []\<rparr>\<rparr>"
  by code_simp

text \<open>
  When the \<^verbatim>\<open>"message"\<close> of the body is \<^verbatim>\<open>null\<close>, the record has no error message.
\<close>

lemma null_message_recorded_as_none:
  "observe lib0 ''0xABC''
     (ts_get_holders_async (world0 (always_500 (empty_body\<lparr>b_message := IsNull\<rparr>))) lib0 contract0 5 service0)
   = Some \<lparr>returned = Inr [], asked = [1], stored = None,
       progress = Some \<lparr>contract_address = ''0xABC'', current_page = 1, total_pages = None,
          last_processed_at = 0, status = FAILED, error_message = None\<rparr>\<rparr>"
  by code_simp

text \<open>
  The engine of get\_holders.py overwrites the \<open>FAILED\<close> record after its loop: there
  the run ends with an \<open>IN_PROGRESS\<close> progress record without an error message.
\<close>

lemma get_holders_first_page_fails:
  "observe lib0 ''0xABC'' (gh_get_holders_async (world0 (always_500 empty_body)) lib0 contract0 5 service0)
   = Some \<lparr>returned = Inr [], asked = [1], stored = None,
       progress = Some \<lparr>contract_address = ''0xABC'', current_page = 1, total_pages = None,
          last_processed_at = 0, status = IN_PROGRESS, error_message = None\<rparr>\<rparr>"
  by code_simp

text \<open>
  Claim C5, amended, for token\_holders\_service.py. The contract has no stored record and
  no progress record that is \<open>IN_PROGRESS\<close>; a proxy and a key are available, the chain
  resolves, the files can be written and the progress file has a dictionary under
  \<^verbatim>\<open>"progress"\<close>; the request for page 1 gets a reply whose status is not 2xx and whose
  body holds a \<^verbatim>\<open>"message"\<close> that is a string and not empty. Then the run returns the
  empty list after that one request; the progress record is \<open>FAILED\<close> at page 1 and its
  error message is that message; and no record of the contract, so no holder, is stored.
\<close>

theorem C5_first_page_fails_amended:
  assumes "the_disk w = Works" and "lib_ok lib"
    and "fst (get_next_available_proxy Works (timer w) (proxy_manager sv)) = Inr (Some u)"
    and "progress_table (db_manager sv) \<noteq> None"
    and "case get_parsing_progress lib (db_manager sv) (k_address c) of
           None \<Rightarrow> True | Some p \<Rightarrow> status p \<noteq> IN_PROGRESS"
    and "chain_id c = Some cid" and "cid \<noteq> []"
    and "api_keys (api_key_manager sv) \<noteq> []"
    and "list_all (\<lambda>k. k \<noteq> []) (api_keys (api_key_manager sv))"
    and "stored_contracts (db_manager sv) = JList cs" and "other_records (k_address c) cs"
    and "upstream w (length (requests sv)) 1 = HttpReply st b"
    and "\<not> (200 \<le> st \<and> st < 300)"
    and "b_message b = Holds m" and "m \<noteq> []"
  shows "\<exists>sv'. ts_get_holders_async w lib c (Suc fuel) sv = Some (Inr [], sv')
           \<and> requests sv' = requests sv @ [1]
           \<and> get_parsing_progress lib (db_manager sv') (k_address c)
               = Some \<lparr>contract_address = k_address c, current_page = 1, total_pages = None,
                       last_processed_at = clock w, status = FAILED, error_message = Some m\<rparr>
           \<and> m \<noteq> []
           \<and> get_processed_contract lib now (db_manager sv') (k_address c) = None"
proof -
  have none: "get_processed_contract lib t (db_manager sv) (k_address c) = None" for t
    using assms(10,11) by (simp add: get_processed_contract_def find_contract_none)
  from assms(4) obtain pr where pr: "progress_table (db_manager sv) = Some pr" by auto
  have start: "(case get_parsing_progress lib (db_manager sv) (k_address c) of
                  None \<Rightarrow> 1
                | Some p \<Rightarrow> if DbStatus (status p) = ModelsStatus M_IN_PROGRESS then current_page p else 1)
               = (1::int)"
    using assms(5) by (simp split: option.split)
  from ts_loop_first_reply_fails [OF assms(1,3,6,7,8,9,12,13), of lib "[]" fuel "[]"] obtain sv1 where
    loop: "ts_loop w lib c [] (Suc fuel) 1 [] sv =
             Some (Inr [], snd (ts_save_progress w lib (k_address c) 1 None M_FAILED (Some m) sv1))"
    and r1: "requests sv1 = requests sv @ [1]" and d1: "db_manager sv1 = db_manager sv"
    using assms(14) by auto
  define sv2 where "sv2 = snd (ts_save_progress w lib (k_address c) 1 None M_FAILED (Some m) sv1)"
  have pr': "progress_table (db_manager sv1) = Some pr" using pr d1 by simp
  have p2: "get_parsing_progress lib (db_manager sv2) (k_address c)
      = Some \<lparr>contract_address = k_address c, current_page = 1, total_pages = None,
              last_processed_at = clock w, status = FAILED, error_message = Some m\<rparr>"
    unfolding sv2_def by (rule ts_failed_progress [OF assms(2,1) pr'])
  have r2: "requests sv2 = requests sv @ [1]" by (simp add: sv2_def r1)
  have "stored_contracts (db_manager sv2) = JList cs" using assms(10) d1 by (simp add: sv2_def)
  then have g2: "get_processed_contract lib now (db_manager sv2) (k_address c) = None"
    using assms(11) by (simp add: get_processed_contract_def find_contract_none)
  have "ts_get_holders_async w lib c (Suc fuel) sv = Some (Inr [], sv2)"
    unfolding ts_get_holders_async_def Let_def start none
    unfolding sv2_def
    using loop by (simp del: ts_loop.simps)
  with r2 p2 g2 assms(15) show ?thesis by blast
qed

theorem C5_first_page_fails_amended_witness:
  "the_disk (world0 (always_500 (empty_body\<lparr>b_message := Holds ''boom''\<rparr>))) = Works
   \<and> lib_ok lib0
   \<and> fst (get_next_available_proxy Works (timer (world0 (always_500 (empty_body\<lparr>b_message := Holds ''boom''\<rparr>))))
            (proxy_manager service0)) = Inr (Some ''http://p'')
   \<and> progress_table (db_manager service0) \<noteq> None
   \<and> (case get_parsing_progress lib0 (db_manager service0) (k_address contract0) of
         None \<Rightarrow> True | Some p \<Rightarrow> status p \<noteq> IN_PROGRESS)
   \<and> chain_id contract0 = Some ''1'' \<and> ''1'' \<noteq> []
   \<and> api_keys (api_key_manager service0) \<noteq> []
   \<and> list_all (\<lambda>k. k \<noteq> []) (api_keys (api_key_manager service0))
   \<and> stored_contracts (db_manager service0) = JList []
   \<and> other_records (k_address contract0) []
   \<and> upstream (world0 (always_500 (empty_body\<lparr>b_message := Holds ''boom''\<rparr>))) (length (requests service0)) 1
       = HttpReply 500 (empty_body\<lparr>b_message := Holds ''boom''\<rparr>)
   \<and> \<not> (200 \<le> (500::int) \<and> (500::int) < 300)
   \<and> b_message (empty_body\<lparr>b_message := Holds ''boom''\<rparr>) = Holds ''boom'' \<and> ''boom'' \<noteq> []
   \<and> (\<exists>sv'. ts_get_holders_async (world0 (always_500 (empty_body\<lparr>b_message := Holds ''boom''\<rparr>))) lib0
                 contract0 (Suc 0) service0 = Some (Inr [], sv')
           \<and> requests sv' = requests service0 @ [1]
           \<and> get_parsing_progress lib0 (db_manager sv') (k_address contract0)
               = Some \<lparr>contract_address = k_address contract0, current_page = 1, total_pages = None,
                       last_processed_at = clock (world0 (always_500 (empty_body\<lparr>b_message := Holds ''boom''\<rparr>))),
                       status = FAILED, error_message = Some ''boom''\<rparr>
           \<and> ''boom'' \<noteq> []
           \<and> get_processed_contract lib0 0 (db_manager sv') (k_address contract0) = None)"
proof -
  let ?b = "empty_body\<lparr>b_message := Holds ''boom''\<rparr>"
  let ?w = "world0 (always_500 ?b)"
  have h1: "the_disk ?w = Works" by (simp add: world0_def)
  have h3: "fst (get_next_available_proxy Works (timer ?w) (proxy_manager service0)) = Inr (Some ''http://p'')"
    by (simp add: world0_def service0_def pool1_gives)
  have h4: "progress_table (db_manager service0) \<noteq> None" by (simp add: service0_def initial_table)
  have h5: "case get_parsing_progress lib0 (db_manager service0) (k_address contract0) of
              None \<Rightarrow> True | Some p \<Rightarrow> status p \<noteq> IN_PROGRESS"
    by (simp add: service0_def get_parsing_progress_def load_json_def initial_db_def)
  have h6: "''1'' \<noteq> []" by simp
  have h7: "api_keys (api_key_manager service0) \<noteq> []" by (simp add: service0_def)
  have h8: "list_all (\<lambda>k. k \<noteq> []) (api_keys (api_key_manager service0))" by (simp add: service0_def)
  have h9: "stored_contracts (db_manager service0) = JList []"
    by (simp add: service0_def stored_contracts_def load_json_def initial_db_def)
  have h10: "other_records (k_address contract0) []" by (simp add: other_records_def)
  have h11: "upstream ?w (length (requests service0)) 1 = HttpReply 500 ?b"
    by (simp add: world0_def always_500_def)
  have h12: "\<not> (200 \<le> (500::int) \<and> (500::int) < 300)" by simp
  have h13: "b_message ?b = Holds ''boom''" by simp
  have h14: "''boom'' \<noteq> []" by simp
  from C5_first_page_fails_amended
         [OF h1 lib0_ok h3 h4 h5 chain_ethereum h6 h7 h8 h9 h10 h11 h12 h13 h14, of 0 0]
    h1 lib0_ok h3 h4 h5 chain_ethereum h6 h7 h8 h9 h10 h11 h12 h13 h14
  show ?thesis by blast
qed





end
